theory Spec2Isabelle
  imports Main "HOL-Library.AList"
begin

section \<open>Shared vocabulary\<close>

text \<open>
  A JavaScript object used as a dictionary (\<open>Record<string, V>\<close>) is an association
  list in enumeration order; \<open>Object.keys\<close> lists its keys, an assignment
  \<open>obj[k] = v\<close> overwrites the entry of \<open>k\<close> in place or appends a new one.
\<close>

type_synonym 'v obj = "(string \<times> 'v) list"

definition Object_keys :: "'v obj \<Rightarrow> string list" where
  "Object_keys m = map fst m"

definition assign :: "string \<Rightarrow> 'v \<Rightarrow> 'v obj \<Rightarrow> 'v obj" where
  "assign k v m = AList.update k v m"

text \<open>\<open>Array.prototype.join\<close> on an array of strings.\<close>

fun join :: "string \<Rightarrow> string list \<Rightarrow> string" where
  "join sep [] = []"
| "join sep [x] = x"
| "join sep (x # y # ys) = x @ sep @ join sep (y # ys)"

text \<open>
  Truthiness of an optional string and of an optional boolean: \<open>undefined\<close>, the empty
  string and \<open>false\<close> are falsy.
\<close>

fun truthy_string :: "string option \<Rightarrow> bool" where
  "truthy_string None = False"
| "truthy_string (Some s) = (s \<noteq> [])"

fun truthy_bool :: "bool option \<Rightarrow> bool" where
  "truthy_bool None = False"
| "truthy_bool (Some b) = b"

text \<open>The nullish coalescing operator \<open>a ?? b\<close> on optional values.\<close>

fun nullish :: "'a option \<Rightarrow> 'a option \<Rightarrow> 'a option" where
  "nullish None b = b"
| "nullish (Some a) b = Some a"

text \<open>The messages handed to the IoHelper, by level, in the order they are sent.\<close>

datatype level = Debug | Info | Warn

type_synonym ioLog = "(level \<times> string) list"

text \<open>
  Every error the modelled functions throw: one constructor for each \<open>throw\<close> site,
  carrying the variable part of its message, and \<open>External\<close> for an error thrown by a
  collaborator (the SDK, the file system, the environment access).
\<close>

datatype error =
    CannotCombineForceWithOrphan
  | BothDeploymentMethodAndLegacy
  | BootstrapVersionError string string
  | UnexpectedRollbackChoice
  | StackDisappeared
  | RollbackFailed string
  | RollbackNoProgress
  | NonAdditionsNotAllowed "string list"
  | UnsupportedPackaging string
  | InvalidDockerImageAsset
  | MissingParameterValues "string list"
  | FailedToBuildAsset
  | FailedToPublishAsset
  | External string

definition apos :: string where
  "apos = [CHR 0x27]"

definition dquote :: string where
  "dquote = [CHR 0x22]"

fun message :: "error \<Rightarrow> string" where
  "message CannotCombineForceWithOrphan = ''Cannot combine --force with --orphan''"
| "message BothDeploymentMethodAndLegacy =
     ''You cannot supply both '' @ apos @ ''deploymentMethod'' @ apos @ '' and '' @ apos
       @ ''changeSetName/execute'' @ apos @ ''. Supply one or the other.''"
| "message (BootstrapVersionError stackName msg) = stackName @ '': '' @ msg"
| "message UnexpectedRollbackChoice = ''Unexpected rollback choice''"
| "message StackDisappeared =
     ''Stack deploy failed (the stack disappeared while we were rolling it back)''"
| "message (RollbackFailed stackErrorMessage) =
     stackErrorMessage @ '' (fix problem and retry, or orphan these resources using --orphan or --force)''"
| "message RollbackNoProgress =
     ''Rollback did not finish after a large number of iterations; stopping because it looks like we''
       @ apos @ ''re not making progress anymore. You can retry if rollback was progressing as expected.''"
| "message (NonAdditionsNotAllowed offendingResources) =
     ''No resource updates or deletes are allowed on import operation. Make sure to resolve pending changes ''
       @ ''to existing resources, before attempting an import. Updated/deleted resources: ''
       @ join '', '' offendingResources @ '' (--force to override)''"
| "message (UnsupportedPackaging p) =
     ''Unsupported packaging type: '' @ p
       @ ''. You might need to upgrade your aws-cdk toolkit to support this asset type.''"
| "message InvalidDockerImageAsset =
     ''Invalid Docker image asset configuration: '' @ dquote @ ''repositoryName'' @ dquote
       @ '' and '' @ dquote @ ''imageTag'' @ dquote @ '' are required when '' @ dquote
       @ ''imageNameParameter'' @ dquote @ '' is left out''"
| "message (MissingParameterValues ks) =
     ''The following CloudFormation Parameters are missing a value: '' @ join '', '' ks"
| "message FailedToBuildAsset = ''Failed to build asset''"
| "message FailedToPublishAsset = ''Failed to publish asset''"
| "message (External msg) = msg"

section \<open>aws-auth/account-cache.ts: AccountAccessKeyCache\<close>

record Account =
  accountId :: string
  partition :: string

text \<open>The error codes \<open>loadMap\<close> and \<open>saveMap\<close> tell apart, and any other failure.\<close>

datatype fsError = ENOENT | EACCES | EROFS | SyntaxError | OtherFsError string

definition MAX_ENTRIES :: nat where
  "MAX_ENTRIES = 1000"

text \<open>
  \<open>loadMap\<close>: \<open>fs.readJson\<close> either returns the stored map or throws; a missing,
  unreadable or corrupt file reads as the empty map, any other failure is rethrown.
\<close>

definition loadMap :: "fsError + Account obj \<Rightarrow> fsError + Account obj" where
  "loadMap readJson =
     (case readJson of
        Inr m \<Rightarrow> Inr m
      | Inl e \<Rightarrow>
          if e = ENOENT \<or> e = EACCES then Inr []
          else if e = SyntaxError then Inr []
          else Inl e)"

text \<open>
  \<open>saveMap\<close>: \<open>ensureFile\<close> and \<open>writeJson\<close> either succeed (\<open>None\<close>) or throw; a
  missing or read-only target is ignored, any other failure is rethrown. The result is
  what the call leaves behind: the written map, nothing written, or the error.
\<close>

datatype putOutcome = Saved "Account obj" | NotWritten | Threw fsError

definition saveMap :: "Account obj \<Rightarrow> fsError option \<Rightarrow> putOutcome" where
  "saveMap m writeJson =
     (case writeJson of
        None \<Rightarrow> Saved m
      | Some e \<Rightarrow>
          if e = ENOENT \<or> e = EACCES \<or> e = EROFS then NotWritten
          else Threw e)"

text \<open>The map \<open>put\<close> hands to \<open>saveMap\<close>, from the map \<open>loadMap\<close> returned.\<close>

definition putMap :: "string \<Rightarrow> Account \<Rightarrow> Account obj \<Rightarrow> Account obj" where
  "putMap accessKeyId account m0 =
     (let m = (if length (Object_keys m0) \<ge> MAX_ENTRIES then [] else m0)
      in assign accessKeyId account m)"

definition put ::
  "string \<Rightarrow> Account \<Rightarrow> fsError + Account obj \<Rightarrow> fsError option \<Rightarrow> putOutcome" where
  "put accessKeyId account readJson writeJson =
     (case loadMap readJson of
        Inl e \<Rightarrow> Threw e
      | Inr m0 \<Rightarrow> saveMap (putMap accessKeyId account m0) writeJson)"

text \<open>\<open>get\<close>: the entry of the access key in the loaded map, if any.\<close>

definition get :: "string \<Rightarrow> fsError + Account obj \<Rightarrow> fsError + Account option" where
  "get accessKeyId readJson =
     (case loadMap readJson of
        Inl e \<Rightarrow> Inl e
      | Inr m \<Rightarrow> Inr (map_of m accessKeyId))"

section \<open>deployments/assets.ts: preparing the assets of a stack\<close>

text \<open>
  The asset metadata of the cloud assembly schema: a file asset is packaged as
  \<open>'zip'\<close> or \<open>'file'\<close>, a container image as \<open>'container-image'\<close>; the
  builder is told \<open>ZIP_DIRECTORY\<close> or \<open>FILE\<close>.
\<close>

datatype FilePackagingName = PackagingZip | PackagingFile

datatype FileAssetPackaging = ZIP_DIRECTORY | FILE

record FileAssetMetadataEntry =
  assetId :: string
  packaging :: FilePackagingName
  path :: string
  sourceHash :: string
  s3BucketParameter :: string
  s3KeyParameter :: string
  artifactHashParameter :: string

record ContainerImageAssetMetadataEntry =
  imageId :: string
  imagePath :: string
  imageSourceHash :: string
  repositoryName :: "string option"
  imageTag :: "string option"
  imageNameParameter :: "string option"

datatype AssetMetadataEntry =
    FileAssetEntry FileAssetMetadataEntry
  | ContainerImageEntry ContainerImageAssetMetadataEntry
  | OtherPackagingEntry string

record ToolkitInfo =
  found :: bool
  bucketName :: string

text \<open>
  Library functions and constants the module imports, taken as parameters:
  Node's \<open>path.extname\<close>, \<open>String.prototype.toLowerCase\<close> and
  \<open>cxapi.ASSET_PREFIX_SEPARATOR\<close>.
\<close>

record Library =
  extname :: "string \<Rightarrow> string"
  toLowerCase :: "string \<Rightarrow> string"
  ASSET_PREFIX_SEPARATOR :: string

text \<open>
  Modelled from the spec: \<open>asset-manifest-builder.ts\<close> (\<open>AssetManifestBuilder\<close>,
  its \<open>addFileAsset\<close> and \<open>addDockerImageAsset\<close>) is missing from the sources. The
  manifest holds entries keyed by content hash, each carrying its source (path and
  packaging kind, or build directory) and its destination coordinates (bucket and key,
  or repository and tag).
\<close>

record FileSource =
  sourcePath :: string
  sourcePackaging :: FileAssetPackaging

record FileDestination =
  destBucketName :: string
  objectKey :: string

record DockerImageDestination =
  destRepositoryName :: string
  destImageTag :: string

record AssetManifestBuilder =
  files :: "(FileSource \<times> FileDestination) obj"
  dockerImages :: "(string \<times> DockerImageDestination) obj"

definition addFileAsset ::
  "string \<Rightarrow> FileSource \<Rightarrow> FileDestination \<Rightarrow> AssetManifestBuilder \<Rightarrow> AssetManifestBuilder" where
  "addFileAsset hash source dest b = b\<lparr>files := assign hash (source, dest) (files b)\<rparr>"

definition addDockerImageAsset ::
  "string \<Rightarrow> string \<Rightarrow> DockerImageDestination \<Rightarrow> AssetManifestBuilder \<Rightarrow> AssetManifestBuilder" where
  "addDockerImageAsset hash directory dest b =
     b\<lparr>dockerImages := assign hash (directory, dest) (dockerImages b)\<rparr>"

text \<open>
  \<open>prepareFileAsset\<close>: the key under which the file is stored, the manifest entry, and
  the CloudFormation parameters of the asset. The result is the debug line, the builder
  and the parameters; the object literal with computed keys assigns them in order.
\<close>

definition prepareFileAsset ::
  "Library \<Rightarrow> FileAssetMetadataEntry \<Rightarrow> AssetManifestBuilder \<Rightarrow> ToolkitInfo \<Rightarrow> FileAssetPackaging
     \<Rightarrow> ioLog \<times> AssetManifestBuilder \<times> string obj" where
  "prepareFileAsset lib asset assetManifest toolkitInfo pkg =
     (let extension = (if pkg = ZIP_DIRECTORY then ''.zip'' else extname lib (path asset));
          baseName = sourceHash asset @ extension;
          s3Prefix = (if assetId asset = sourceHash asset then ''assets/''
                      else ''assets/'' @ assetId asset @ ''/'');
          key = s3Prefix @ baseName;
          s3url = ''s3://'' @ bucketName toolkitInfo @ ''/'' @ key
      in ([(Debug, ''Storing asset '' @ path asset @ '' at '' @ s3url)],
          addFileAsset (sourceHash asset)
            \<lparr>sourcePath = path asset, sourcePackaging = pkg\<rparr>
            \<lparr>destBucketName = bucketName toolkitInfo, objectKey = key\<rparr>
            assetManifest,
          assign (artifactHashParameter asset) (sourceHash asset)
            (assign (s3KeyParameter asset) (s3Prefix @ ASSET_PREFIX_SEPARATOR lib @ baseName)
              (assign (s3BucketParameter asset) (bucketName toolkitInfo) []))))"

text \<open>
  \<open>prepareDockerImageAsset\<close>: \<open>prepareEcrRepository\<close> is the remote call that makes sure
  the repository exists; it returns the repository URI or throws.
\<close>

definition sanitize :: "string \<Rightarrow> string" where
  "sanitize s = map (\<lambda>c. if c = CHR '':'' \<or> c = CHR ''/'' then CHR ''-'' else c) s"

definition prepareDockerImageAsset ::
  "Library \<Rightarrow> ContainerImageAssetMetadataEntry \<Rightarrow> AssetManifestBuilder
     \<Rightarrow> (string \<Rightarrow> error + string) \<Rightarrow> error + AssetManifestBuilder \<times> string obj" where
  "prepareDockerImageAsset lib asset assetManifest prepareEcrRepository =
     (if \<not> truthy_string (imageNameParameter asset)
          \<and> (\<not> truthy_string (repositoryName asset) \<or> \<not> truthy_string (imageTag asset))
      then Inl InvalidDockerImageAsset
      else
        let repoName = (case repositoryName asset of
                          Some r \<Rightarrow> r
                        | None \<Rightarrow> ''cdk/'' @ toLowerCase lib (sanitize (imageId asset)))
        in case prepareEcrRepository repoName of
             Inl e \<Rightarrow> Inl e
           | Inr repositoryUri \<Rightarrow>
               let tag = (case imageTag asset of Some t \<Rightarrow> t | None \<Rightarrow> imageSourceHash asset);
                   b = addDockerImageAsset (imageSourceHash asset) (imagePath asset)
                         \<lparr>destRepositoryName = repoName, destImageTag = tag\<rparr> assetManifest
               in if \<not> truthy_string (imageNameParameter asset) then Inr (b, [])
                  else Inr (b, [(the (imageNameParameter asset), repositoryUri @ '':'' @ tag)]))"

text \<open>\<open>prepareAsset\<close>: the dispatch on the packaging of the metadata entry.\<close>

fun prepareAsset ::
  "Library \<Rightarrow> AssetMetadataEntry \<Rightarrow> AssetManifestBuilder \<Rightarrow> (string \<Rightarrow> error + string)
     \<Rightarrow> ToolkitInfo \<Rightarrow> error + ioLog \<times> AssetManifestBuilder \<times> string obj" where
  "prepareAsset lib (FileAssetEntry asset) assetManifest prepareEcrRepository toolkitInfo =
     Inr (prepareFileAsset lib asset assetManifest toolkitInfo
            (if packaging asset = PackagingZip then ZIP_DIRECTORY else FILE))"
| "prepareAsset lib (ContainerImageEntry asset) assetManifest prepareEcrRepository toolkitInfo =
     (case prepareDockerImageAsset lib asset assetManifest prepareEcrRepository of
        Inl e \<Rightarrow> Inl e
      | Inr r \<Rightarrow> Inr ([], r))"
| "prepareAsset lib (OtherPackagingEntry p) assetManifest prepareEcrRepository toolkitInfo =
     Inl (UnsupportedPackaging p)"

text \<open>The destination the builder holds for a content hash.\<close>

definition destinationKey :: "AssetManifestBuilder \<Rightarrow> string \<Rightarrow> string option" where
  "destinationKey b hash = map_option (\<lambda>(src, dest). objectKey dest) (map_of (files b) hash)"

section \<open>deployments/deployments.ts: the collaborators of \<open>Deployments\<close>\<close>

text \<open>
  The stack artifact of the cloud assembly, as far as \<open>Deployments\<close> reads it.
\<close>

record StackArtifact =
  stackName :: string
  cloudFormationExecutionRoleArn :: "string option"
  requiresBootstrapStackVersion :: "nat option"
  bootstrapStackVersionSsmParameter :: "string option"

text \<open>
  The status of a stack as \<open>CloudFormationStack.lookup\<close> and \<open>stabilizeStack\<close> report
  it. The class \<open>StackStatus\<close> (stack-events) derives the rollback choice and the
  success flag from the raw status; here they are what was observed, together with the
  text \<open>toString\<close> renders. The rollback choice is one of the four of the enumeration,
  so the \<open>default\<close> branch of the \<open>switch\<close> in \<open>rollbackStack\<close>, which throws
  \<open>UnexpectedRollbackChoice\<close>, is never taken.
\<close>

datatype RollbackChoice = START_ROLLBACK | CONTINUE_UPDATE_ROLLBACK | ROLLBACK_FAILED | NONE

record StackStatus =
  statusText :: string
  rollbackChoice :: RollbackChoice
  isRollbackSuccess :: bool

record CloudFormationStack =
  stackId :: string
  stackStatus :: StackStatus

text \<open>A resource error of the \<open>StackEventPoller\<close>, as far as the rollback reads it.\<close>

record ResourceError =
  isStackEvent :: bool
  parentStackLogicalIds :: "string list"
  LogicalResourceId :: "string option"

text \<open>
  Every call \<open>Deployments\<close> makes to a collaborator is recorded, in order, with the
  arguments it was given. The state-changing calls of the CloudFormation API are
  \<open>rollbackStack\<close> and \<open>continueUpdateRollback\<close>; the deployment proper is the call
  of \<open>deployStack\<close> (deploy-stack).
\<close>

record RollbackStackInput =
  rbStackName :: string
  rbRoleARN :: "string option"
  rbClientRequestToken :: string
  rbRetainExceptOnCreate :: bool

record ContinueUpdateRollbackInput =
  cuStackName :: string
  cuClientRequestToken :: string
  cuRoleARN :: "string option"
  cuResourcesToSkip :: "string list"

text \<open>
  The deployment method (its declaration is in actions/deploy): a change-set deployment
  carries the name of the change set and the execute flag. Of the arguments
  \<open>Deployments.deployStack\<close> hands to \<open>deployStack\<close> the ones it computes are kept; the
  other options are handed on unchanged.
\<close>

datatype DeploymentMethod =
    DirectDeployment
  | ChangeSetDeployment (methodChangeSetName: "string option") (methodExecute: "bool option")
  | HotswapDeployment

record DeployStackArgs =
  argStack :: StackArtifact
  argRoleArn :: "string option"
  argDeploymentMethod :: "DeploymentMethod option"

datatype remoteCall =
    AccessStackForMutableStackOperations string
  | ValidateVersion "nat option" "string option"
  | ReplacePlaceholders "string option"
  | Lookup string
  | RollbackStackCall RollbackStackInput
  | PollStackEvents string "string list"
  | ContinueUpdateRollbackCall ContinueUpdateRollbackInput
  | MonitorStart string
  | StabilizeStack string
  | MonitorStop
  | DeployStackCall DeployStackArgs

fun mutating :: "remoteCall \<Rightarrow> bool" where
  "mutating (RollbackStackCall _) = True"
| "mutating (ContinueUpdateRollbackCall _) = True"
| "mutating (DeployStackCall _) = True"
| "mutating _ = False"

record Trace =
  calls :: "remoteCall list"
  io :: ioLog

definition emptyTrace :: Trace where
  "emptyTrace = \<lparr>calls = [], io = []\<rparr>"

definition call :: "remoteCall \<Rightarrow> Trace \<Rightarrow> Trace" where
  "call c t = t\<lparr>calls := calls t @ [c]\<rparr>"

definition say :: "level \<Rightarrow> string \<Rightarrow> Trace \<Rightarrow> Trace" where
  "say l m t = t\<lparr>io := io t @ [(l, m)]\<rparr>"

definition appendTrace :: "Trace \<Rightarrow> Trace \<Rightarrow> Trace" where
  "appendTrace t t' = \<lparr>calls = calls t @ calls t', io = io t @ io t'\<rparr>"

definition mutatingCalls :: "Trace \<Rightarrow> remoteCall list" where
  "mutatingCalls t = filter mutating (calls t)"

text \<open>
  Modelled from the spec: \<open>formatErrorMessage\<close> (util) is missing from the sources; it
  renders the text of an error, which is aggregated into the messages of the rollback.
\<close>

definition formatErrorMessage :: "error \<Rightarrow> string" where
  "formatErrorMessage e = message e"

definition suffixWithErrors :: "string \<Rightarrow> string list \<Rightarrow> string" where
  "suffixWithErrors msg errors =
     (if length errors > 0 then msg @ '': '' @ join '', '' errors else msg)"

text \<open>
  What the environment answers: \<open>None\<close> (or \<open>Inr\<close>) when a call returns, the error
  when it throws. \<open>accessStackForMutableStackOperations\<close> and
  \<open>EnvironmentResources.validateVersion\<close> are asked once for each operation.
\<close>

record Environment =
  accessStackForMutableStackOperations :: "error option"
  validateVersion :: "error option"

text \<open>
  \<open>validateBootstrapStackVersion\<close>: a failure of \<open>validateVersion\<close> is rethrown with
  the stack name in front.
\<close>

definition validateBootstrapStackVersion ::
  "string \<Rightarrow> nat option \<Rightarrow> string option \<Rightarrow> error option \<Rightarrow> Trace \<Rightarrow> Trace \<times> error option" where
  "validateBootstrapStackVersion name required ssmParameter outcome t =
     (call (ValidateVersion required ssmParameter) t,
      case outcome of
        None \<Rightarrow> None
      | Some e \<Rightarrow> Some (BootstrapVersionError name (formatErrorMessage e)))"

section \<open>deployments/deployments.ts: \<open>deployStack\<close>\<close>

text \<open>The options every operation on a stack takes, and those of \<open>deployStack\<close>.\<close>

record StackOptions =
  stack :: StackArtifact
  roleArn :: "string option"

record DeployStackOptions = StackOptions +
  deploymentMethod :: "DeploymentMethod option"
  changeSetName :: "string option"
  execute :: "bool option"

record 'r DeployEnvironment = Environment +
  replacePlaceholdersDeploy :: "string option \<Rightarrow> error + string option"
  deployStackFn :: "DeployStackArgs \<Rightarrow> error + 'r"

text \<open>
  The deployment method after the legacy options have been honoured: \<open>changeSetName\<close>
  counts when it is truthy, \<open>execute\<close> when it is not \<open>undefined\<close>.
\<close>

definition legacyOptionsGiven :: "'a DeployStackOptions_scheme \<Rightarrow> bool" where
  "legacyOptionsGiven options = (truthy_string (changeSetName options) \<or> execute options \<noteq> None)"

definition resolveDeploymentMethod :: "'a DeployStackOptions_scheme \<Rightarrow> error + DeploymentMethod option" where
  "resolveDeploymentMethod options =
     (if legacyOptionsGiven options then
        (if deploymentMethod options \<noteq> None then Inl BothDeploymentMethodAndLegacy
         else Inr (Some (ChangeSetDeployment (changeSetName options) (execute options))))
      else Inr (deploymentMethod options))"

definition deployStack ::
  "DeployStackOptions \<Rightarrow> 'r DeployEnvironment \<Rightarrow> Trace \<times> (error + 'r)" where
  "deployStack options env =
     (case resolveDeploymentMethod options of
        Inl e \<Rightarrow> (emptyTrace, Inl e)
      | Inr method \<Rightarrow>
          (let t1 = call (AccessStackForMutableStackOperations (stackName (stack options))) emptyTrace
           in (case accessStackForMutableStackOperations env of
                 Some e \<Rightarrow> (t1, Inl e)
               | None \<Rightarrow>
                   (case validateBootstrapStackVersion (stackName (stack options))
                           (requiresBootstrapStackVersion (stack options))
                           (bootstrapStackVersionSsmParameter (stack options))
                           (validateVersion env) t1 of
                      (t2, Some e) \<Rightarrow> (t2, Inl e)
                    | (t2, None) \<Rightarrow>
                        (let arn = nullish (roleArn options)
                                     (cloudFormationExecutionRoleArn (stack options));
                             t3 = call (ReplacePlaceholders arn) t2
                         in (case replacePlaceholdersDeploy env arn of
                               Inl e \<Rightarrow> (t3, Inl e)
                             | Inr executionRoleArn \<Rightarrow>
                                 (let args = \<lparr>argStack = stack options,
                                              argRoleArn = executionRoleArn,
                                              argDeploymentMethod = method\<rparr>
                                  in (call (DeployStackCall args) t3, deployStackFn env args))))))))"

section \<open>deployments/deployments.ts: \<open>rollbackStack\<close>\<close>

record RollbackStackOptions = StackOptions +
  orphanFailedResources :: "bool option"
  orphanLogicalIds :: "string list option"
  validateBootstrapStackVersionOpt :: "bool option"

datatype RollbackStackResult =
    NotInRollbackableState (stackArn: string)
  | Success (stackArn: string)

definition BOOTSTRAP_STACK_VERSION_FOR_ROLLBACK :: nat where
  "BOOTSTRAP_STACK_VERSION_FOR_ROLLBACK = 23"

text \<open>
  What one iteration of the loop observes: the stack it looks up (an error when the
  lookup throws or the id of the stack cannot be read), the role it resolves,
  the token it draws, the answers of the two state-changing calls, the resource errors
  the event poller finds, and the outcome of the stabilisation (the stack, \<open>undefined\<close>
  when it disappeared, or an error) with the errors the activity monitor collected.
\<close>

record IterationEnvironment =
  lookup :: "error + CloudFormationStack"
  replacePlaceholders :: "string option \<Rightarrow> error + string option"
  randomUUID :: string
  rollbackStackApi :: "error option"
  pollResourceErrors :: "error + ResourceError list"
  continueUpdateRollbackApi :: "error option"
  stabilizeStack :: "error + CloudFormationStack option"
  monitorErrors :: "string list"

record RollbackEnvironment = Environment +
  iteration :: "nat \<Rightarrow> IterationEnvironment"

text \<open>How an iteration of the loop ends: with a result, an error, or another round.\<close>

datatype loopStep = Return RollbackStackResult | Throw error | Continue "string list"

text \<open>
  The part of the iteration after a state-changing call: the activity monitor is started,
  the stack is stabilised, the monitor is stopped, and the outcome is judged.
\<close>

definition monitorAndStabilize ::
  "'a RollbackStackOptions_scheme \<Rightarrow> string \<Rightarrow> IterationEnvironment \<Rightarrow> CloudFormationStack
     \<Rightarrow> string list \<Rightarrow> Trace \<Rightarrow> Trace \<times> loopStep" where
  "monitorAndStabilize options deployName e cloudFormationStack resourcesToSkip t =
     (let t1 = call (StabilizeStack deployName) (call (MonitorStart deployName) t);
          (stackErrorMessage, finalStackState) =
            (case stabilizeStack e of
               Inl err \<Rightarrow>
                 (Some (suffixWithErrors (formatErrorMessage err) (monitorErrors e)), cloudFormationStack)
             | Inr None \<Rightarrow>
                 (Some (suffixWithErrors (formatErrorMessage StackDisappeared) (monitorErrors e)),
                  cloudFormationStack)
             | Inr (Some successStack) \<Rightarrow>
                 (let errors = join '', '' (monitorErrors e)
                  in (if errors \<noteq> [] then Some errors else None, successStack)));
          t2 = call MonitorStop t1
      in if isRollbackSuccess (stackStatus finalStackState) \<or> \<not> truthy_string stackErrorMessage
         then (t2, Return (Success (stackId cloudFormationStack)))
         else if rollbackChoice (stackStatus finalStackState) = CONTINUE_UPDATE_ROLLBACK
                 \<and> truthy_bool (orphanFailedResources options)
         then (t2, Continue resourcesToSkip)
         else (t2, Throw (RollbackFailed (the stackErrorMessage))))"

text \<open>The logical ids the automatic orphaning skips: the top-level resource errors.\<close>

definition failedResources :: "ResourceError list \<Rightarrow> string list" where
  "failedResources errs =
     map (\<lambda>r. case LogicalResourceId r of Some i \<Rightarrow> i | None \<Rightarrow> [])
       (filter (\<lambda>r. \<not> isStackEvent r \<and> length (parentStackLogicalIds r) = 0) errs)"

text \<open>
  One round of the \<open>while\<close> loop of \<open>rollbackStack\<close>: the calls it makes and the
  messages it sends, in order, and how it ends.
\<close>

definition rollbackIteration ::
  "'a RollbackStackOptions_scheme \<Rightarrow> string \<Rightarrow> IterationEnvironment \<Rightarrow> string list
     \<Rightarrow> Trace \<times> loopStep" where
  "rollbackIteration options deployName e resourcesToSkip =
     (let t1 = call (Lookup deployName) emptyTrace
      in (case lookup e of
            Inl err \<Rightarrow> (t1, Throw err)
          | Inr cloudFormationStack \<Rightarrow>
              (let arn = nullish (roleArn options) (cloudFormationExecutionRoleArn (stack options));
                   t2 = call (ReplacePlaceholders arn) t1
               in (case replacePlaceholders e arn of
                     Inl err \<Rightarrow> (t2, Throw err)
                   | Inr executionRoleArn \<Rightarrow>
                       (case rollbackChoice (stackStatus cloudFormationStack) of
                          NONE \<Rightarrow>
                            (say Warn (''Stack '' @ deployName @ '' does not need a rollback: ''
                                         @ statusText (stackStatus cloudFormationStack)) t2,
                             Return (NotInRollbackableState (stackId cloudFormationStack)))
                        | START_ROLLBACK \<Rightarrow>
                            (let t3 = call (RollbackStackCall
                                              \<lparr>rbStackName = deployName, rbRoleARN = executionRoleArn,
                                               rbClientRequestToken = randomUUID e,
                                               rbRetainExceptOnCreate = True\<rparr>)
                                        (say Debug (''Initiating rollback of stack '' @ deployName) t2)
                             in (case rollbackStackApi e of
                                   Some err \<Rightarrow> (t3, Throw err)
                                 | None \<Rightarrow>
                                     monitorAndStabilize options deployName e cloudFormationStack
                                       resourcesToSkip t3))
                        | CONTINUE_UPDATE_ROLLBACK \<Rightarrow>
                            (let polled =
                                   (if truthy_bool (orphanFailedResources options)
                                    then (call (PollStackEvents deployName
                                                  [''ROLLBACK_IN_PROGRESS'',
                                                   ''UPDATE_ROLLBACK_IN_PROGRESS'']) t2,
                                          map_sum id failedResources (pollResourceErrors e))
                                    else (t2, Inr resourcesToSkip))
                             in (case polled of
                                   (t3, Inl err) \<Rightarrow> (t3, Throw err)
                                 | (t3, Inr toSkip) \<Rightarrow>
                                     (let skipDescription =
                                            (if length toSkip > 0
                                             then '' (orphaning: '' @ join '', '' toSkip @ '')''
                                             else []);
                                          t4 = call (ContinueUpdateRollbackCall
                                                       \<lparr>cuStackName = deployName,
                                                        cuClientRequestToken = randomUUID e,
                                                        cuRoleARN = executionRoleArn,
                                                        cuResourcesToSkip = toSkip\<rparr>)
                                                 (say Warn (''Continuing rollback of stack ''
                                                              @ deployName @ skipDescription) t3)
                                      in (case continueUpdateRollbackApi e of
                                            Some err \<Rightarrow> (t4, Throw err)
                                          | None \<Rightarrow>
                                              monitorAndStabilize options deployName e
                                                cloudFormationStack toSkip t4))))
                        | ROLLBACK_FAILED \<Rightarrow>
                            (say Warn (''Stack '' @ deployName
                                         @ '' failed creation and rollback. This state cannot be rolled back. ''
                                         @ ''You can recreate this stack by running '' @ apos
                                         @ ''cdk deploy'' @ apos @ ''.'') t2,
                             Return (NotInRollbackableState (stackId cloudFormationStack))))))))"

text \<open>
  The loop \<open>while (maxLoops--)\<close>: the body runs while the counter is not zero, and the
  counter goes down by one before each round; \<open>i\<close> counts the rounds already run and
  \<open>t\<close> is the trace so far. When the counter has reached zero the loop is left and the
  error after it is thrown.
\<close>

fun rollbackLoop ::
  "'a RollbackStackOptions_scheme \<Rightarrow> string \<Rightarrow> (nat \<Rightarrow> IterationEnvironment) \<Rightarrow> nat \<Rightarrow> nat
     \<Rightarrow> string list \<Rightarrow> Trace \<Rightarrow> Trace \<times> (error + RollbackStackResult)" where
  "rollbackLoop options deployName env i 0 resourcesToSkip t = (t, Inl RollbackNoProgress)"
| "rollbackLoop options deployName env i (Suc maxLoops) resourcesToSkip t =
     (case rollbackIteration options deployName (env i) resourcesToSkip of
        (t', Return r) \<Rightarrow> (appendTrace t t', Inr r)
      | (t', Throw err) \<Rightarrow> (appendTrace t t', Inl err)
      | (t', Continue toSkip) \<Rightarrow>
          rollbackLoop options deployName env (Suc i) maxLoops toSkip (appendTrace t t'))"

definition rollbackStack ::
  "RollbackStackOptions \<Rightarrow> RollbackEnvironment \<Rightarrow> Trace \<times> (error + RollbackStackResult)" where
  "rollbackStack options env =
     (let resourcesToSkip = (case orphanLogicalIds options of Some ids \<Rightarrow> ids | None \<Rightarrow> [])
      in if truthy_bool (orphanFailedResources options) \<and> length resourcesToSkip > 0
         then (emptyTrace, Inl CannotCombineForceWithOrphan)
         else
           (let t1 = call (AccessStackForMutableStackOperations (stackName (stack options))) emptyTrace
            in (case accessStackForMutableStackOperations env of
                  Some err \<Rightarrow> (t1, Inl err)
                | None \<Rightarrow>
                    (case (if (case validateBootstrapStackVersionOpt options of
                                 Some b \<Rightarrow> b | None \<Rightarrow> True)
                           then validateBootstrapStackVersion (stackName (stack options))
                                  (Some BOOTSTRAP_STACK_VERSION_FOR_ROLLBACK)
                                  (bootstrapStackVersionSsmParameter (stack options))
                                  (validateVersion env) t1
                           else (t1, None)) of
                       (t2, Some err) \<Rightarrow> (t2, Inl err)
                     | (t2, None) \<Rightarrow>
                         rollbackLoop options (stackName (stack options)) (iteration env) 0 10
                           resourcesToSkip t2))))"

text \<open>Whether a round of the loop asks for another round.\<close>

fun continues :: "loopStep \<Rightarrow> bool" where
  "continues (Continue _) = True"
| "continues _ = False"

section \<open>deployments/deployments.ts: the publisher cache\<close>

text \<open>
  Objects have an identity: a manifest is its address and its contents, and the
  \<open>Map\<close> of the cache is keyed by the address. The publishers created so far are the
  cells of a heap, a publisher's identity is the index of its cell, and
  \<open>new AssetPublishing\<close> takes the next free cell.
\<close>

record AssetManifest =
  manifestAddress :: nat
  manifestEntries :: "string list"

record AssetPublishing =
  publishedManifest :: AssetManifest
  publishingEnvironment :: string
  progressPrefix :: string

record Deployments =
  publisherCache :: "nat \<rightharpoonup> nat"
  publishers :: "AssetPublishing list"
  allowCrossAccountAssetPublishing :: "bool option"

definition newDeployments :: Deployments where
  "newDeployments =
     \<lparr>publisherCache = Map.empty, publishers = [], allowCrossAccountAssetPublishing = None\<rparr>"

text \<open>
  \<open>cachedPublisher\<close>; \<open>bold\<close> is \<open>chalk.bold\<close>. A cached publisher is an object and
  so truthy.
\<close>

definition cachedPublisher ::
  "(string \<Rightarrow> string) \<Rightarrow> AssetManifest \<Rightarrow> string \<Rightarrow> string option \<Rightarrow> Deployments
     \<Rightarrow> nat \<times> Deployments" where
  "cachedPublisher bold assetManifest env name d =
     (case publisherCache d (manifestAddress assetManifest) of
        Some existing \<Rightarrow> (existing, d)
      | None \<Rightarrow>
          (let prefix = (if truthy_string name then bold (the name) @ '': '' else []);
               publisher = length (publishers d)
           in (publisher,
               d\<lparr>publishers := publishers d
                    @ [\<lparr>publishedManifest = assetManifest, publishingEnvironment = env,
                        progressPrefix = prefix\<rparr>],
                 publisherCache := (publisherCache d)(manifestAddress assetManifest \<mapsto> publisher)\<rparr>)))"

text \<open>
  What the environment answers to one of the three operations on a single asset: the
  read-only access and the bootstrap version check (of \<open>buildSingleAsset\<close>, unless it
  is called with \<open>'no-version-validation'\<close>), the resolved environment, the call on the
  publisher, the publisher's \<open>hasFailures\<close> afterwards, and the check for cross-account
  publishing (asked only while the flag is not yet known).
\<close>

record AssetCallEnvironment =
  accessStackForReadOnlyStackOperations :: "error option"
  versionValidation :: "error option"
  resolveStackEnvironment :: "error + string"
  publisherCall :: "error + bool"
  hasFailures :: bool
  determineAllowCrossAccount :: "error + bool"

datatype assetOperation = BuildSingleAsset bool | PublishSingleAsset | IsSingleAssetPublished

record AssetCall =
  operation :: assetOperation
  assetManifest :: AssetManifest
  forStackName :: "string option"
  answers :: AssetCallEnvironment

text \<open>
  The outcome of an operation: the publisher it obtained from the cache, if it came that
  far, and its result (the answer of \<open>isEntryPublished\<close> for the existence check).
\<close>

record AssetCallOutcome =
  obtained :: "nat option"
  result :: "error + bool option"

definition buildSingleAsset ::
  "(string \<Rightarrow> string) \<Rightarrow> string \<Rightarrow> bool \<Rightarrow> AssetManifest \<Rightarrow> string option \<Rightarrow> AssetCallEnvironment
     \<Rightarrow> Deployments \<Rightarrow> AssetCallOutcome \<times> Deployments" where
  "buildSingleAsset bold name validate m stackNameOpt e d =
     (case (if validate
            then (case accessStackForReadOnlyStackOperations e of
                    Some err \<Rightarrow> Some err
                  | None \<Rightarrow>
                      map_option (\<lambda>err. BootstrapVersionError name (formatErrorMessage err))
                        (versionValidation e))
            else None) of
        Some err \<Rightarrow> (\<lparr>obtained = None, result = Inl err\<rparr>, d)
      | None \<Rightarrow>
          (case resolveStackEnvironment e of
             Inl err \<Rightarrow> (\<lparr>obtained = None, result = Inl err\<rparr>, d)
           | Inr resolvedEnvironment \<Rightarrow>
               (case cachedPublisher bold m resolvedEnvironment stackNameOpt d of
                  (publisher, d') \<Rightarrow>
                    (case publisherCall e of
                       Inl err \<Rightarrow> (\<lparr>obtained = Some publisher, result = Inl err\<rparr>, d')
                     | Inr _ \<Rightarrow>
                         if hasFailures e
                         then (\<lparr>obtained = Some publisher, result = Inl FailedToBuildAsset\<rparr>, d')
                         else (\<lparr>obtained = Some publisher, result = Inr None\<rparr>, d')))))"

text \<open>\<open>allowCrossAccountAssetPublishingForEnv\<close>: determined once, then remembered.\<close>

definition allowCrossAccountAssetPublishingForEnv ::
  "AssetCallEnvironment \<Rightarrow> Deployments \<Rightarrow> (error + bool) \<times> Deployments" where
  "allowCrossAccountAssetPublishingForEnv e d =
     (case allowCrossAccountAssetPublishing d of
        Some b \<Rightarrow> (Inr b, d)
      | None \<Rightarrow>
          (case determineAllowCrossAccount e of
             Inl err \<Rightarrow> (Inl err, d)
           | Inr b \<Rightarrow> (Inr b, d\<lparr>allowCrossAccountAssetPublishing := Some b\<rparr>)))"

definition publishSingleAsset ::
  "(string \<Rightarrow> string) \<Rightarrow> AssetManifest \<Rightarrow> string option \<Rightarrow> AssetCallEnvironment \<Rightarrow> Deployments
     \<Rightarrow> AssetCallOutcome \<times> Deployments" where
  "publishSingleAsset bold m stackNameOpt e d =
     (case resolveStackEnvironment e of
        Inl err \<Rightarrow> (\<lparr>obtained = None, result = Inl err\<rparr>, d)
      | Inr stackEnv \<Rightarrow>
          (case cachedPublisher bold m stackEnv stackNameOpt d of
             (publisher, d') \<Rightarrow>
               (case allowCrossAccountAssetPublishingForEnv e d' of
                  (Inl err, d'') \<Rightarrow> (\<lparr>obtained = Some publisher, result = Inl err\<rparr>, d'')
                | (Inr allow, d'') \<Rightarrow>
                    (case publisherCall e of
                       Inl err \<Rightarrow> (\<lparr>obtained = Some publisher, result = Inl err\<rparr>, d'')
                     | Inr _ \<Rightarrow>
                         if hasFailures e
                         then (\<lparr>obtained = Some publisher, result = Inl FailedToPublishAsset\<rparr>, d'')
                         else (\<lparr>obtained = Some publisher, result = Inr None\<rparr>, d'')))))"

definition isSingleAssetPublished ::
  "(string \<Rightarrow> string) \<Rightarrow> AssetManifest \<Rightarrow> string option \<Rightarrow> AssetCallEnvironment \<Rightarrow> Deployments
     \<Rightarrow> AssetCallOutcome \<times> Deployments" where
  "isSingleAssetPublished bold m stackNameOpt e d =
     (case resolveStackEnvironment e of
        Inl err \<Rightarrow> (\<lparr>obtained = None, result = Inl err\<rparr>, d)
      | Inr stackEnv \<Rightarrow>
          (case cachedPublisher bold m stackEnv stackNameOpt d of
             (publisher, d') \<Rightarrow>
               (\<lparr>obtained = Some publisher, result = map_sum id Some (publisherCall e)\<rparr>, d')))"

text \<open>A sequence of operations on one \<open>Deployments\<close> instance, and their outcomes.\<close>

definition runAssetCall ::
  "(string \<Rightarrow> string) \<Rightarrow> string \<Rightarrow> AssetCall \<Rightarrow> Deployments \<Rightarrow> AssetCallOutcome \<times> Deployments" where
  "runAssetCall bold name c d =
     (case operation c of
        BuildSingleAsset validate \<Rightarrow>
          buildSingleAsset bold name validate (assetManifest c) (forStackName c) (answers c) d
      | PublishSingleAsset \<Rightarrow>
          publishSingleAsset bold (assetManifest c) (forStackName c) (answers c) d
      | IsSingleAssetPublished \<Rightarrow>
          isSingleAssetPublished bold (assetManifest c) (forStackName c) (answers c) d)"

fun runAssetCalls ::
  "(string \<Rightarrow> string) \<Rightarrow> string \<Rightarrow> AssetCall list \<Rightarrow> Deployments
     \<Rightarrow> AssetCallOutcome list \<times> Deployments" where
  "runAssetCalls bold name [] d = ([], d)"
| "runAssetCalls bold name (c # cs) d =
     (case runAssetCall bold name c d of
        (out, d') \<Rightarrow>
          (case runAssetCalls bold name cs d' of
             (outs, d'') \<Rightarrow> (out # outs, d'')))"

text \<open>
  The invariant of the cache: a cached publisher is an allocated cell, and no publisher
  is cached under two manifests. A cache grows when no entry is dropped or changed.
\<close>

definition cacheInvariant :: "Deployments \<Rightarrow> bool" where
  "cacheInvariant d =
     ((\<forall>a p. publisherCache d a = Some p \<longrightarrow> p < length (publishers d))
      \<and> (\<forall>a b p. publisherCache d a = Some p \<and> publisherCache d b = Some p \<longrightarrow> a = b))"

definition cacheGrows :: "Deployments \<Rightarrow> Deployments \<Rightarrow> bool" where
  "cacheGrows d d' = (\<forall>a p. publisherCache d a = Some p \<longrightarrow> publisherCache d' a = Some p)"

text \<open>What one operation leaves behind, for the induction over a sequence.\<close>

definition stepOk :: "Deployments \<Rightarrow> AssetManifest \<Rightarrow> AssetCallOutcome \<times> Deployments \<Rightarrow> bool" where
  "stepOk d m r =
     (cacheInvariant (snd r) \<and> cacheGrows d (snd r)
      \<and> (\<forall>p. obtained (fst r) = Some p \<longrightarrow> publisherCache (snd r) (manifestAddress m) = Some p))"

text \<open>
  Two manifest objects with the same contents, and calls that the environment answers
  without an error.
\<close>

definition manifestAt :: "nat \<Rightarrow> AssetManifest" where
  "manifestAt a = \<lparr>manifestAddress = a, manifestEntries = [''abc123'']\<rparr>"

definition quietAssetCall :: "assetOperation \<Rightarrow> AssetManifest \<Rightarrow> AssetCall" where
  "quietAssetCall op m =
     \<lparr>operation = op, assetManifest = m, forStackName = Some ''MyStack'',
      answers = \<lparr>accessStackForReadOnlyStackOperations = None, versionValidation = None,
                 resolveStackEnvironment = Inr ''aws://123456789012/us-east-1'',
                 publisherCall = Inr True, hasFailures = False,
                 determineAllowCrossAccount = Inr False\<rparr>\<rparr>"

section \<open>The resource importer: \<open>discoverImportableResources\<close>\<close>

text \<open>
  A resource of a template, as far as the importer reads it: its deletion policy, the
  construct path in its metadata (\<open>Metadata['aws:cdk:path']\<close>), and the rest of its
  definition. The template of the stack artifact may be missing, and so may its
  \<open>Resources\<close> section.
\<close>

record 'r Resource =
  DeletionPolicy :: "string option"
  cdkPath :: "string option"
  definition_rest :: "'r option"

record 'r Template =
  Resources :: "'r Resource obj option"

text \<open>
  The difference of one resource as \<open>cloudformation-diff\<close> reports it, as far as the
  importer reads it.
\<close>

record ResourceDifference =
  isAddition :: bool
  newResourceType :: "string option"

record 'r ImportableResource =
  logicalId :: string
  resourceDiff :: ResourceDifference
  resourceDefinition :: "'r Resource"

record 'r DiscoverImportableResourcesResult =
  additions :: "'r ImportableResource list"
  hasNonAdditions :: bool

text \<open>\<open>stack.template?.Resources?.[logicalId]\<close>\<close>

definition templateResource :: "'r Template option \<Rightarrow> string \<Rightarrow> 'r Resource option" where
  "templateResource template logId =
     (case template of
        None \<Rightarrow> None
      | Some t \<Rightarrow> (case Resources t of None \<Rightarrow> None | Some rs \<Rightarrow> map_of rs logId))"

definition describeResource :: "'r Template option \<Rightarrow> string \<Rightarrow> string" where
  "describeResource template logId =
     (case templateResource template logId of
        None \<Rightarrow> logId
      | Some r \<Rightarrow> (case cdkPath r of None \<Rightarrow> logId | Some p \<Rightarrow> p))"

definition addDefaultDeletionPolicy :: "'r Resource \<Rightarrow> 'r Resource" where
  "addDefaultDeletionPolicy resource =
     (if truthy_string (DeletionPolicy resource) then resource
      else resource\<lparr>DeletionPolicy := Some ''Retain''\<rparr>)"

definition emptyResource :: "'r Resource" where
  "emptyResource = \<lparr>DeletionPolicy = None, cdkPath = None, definition_rest = None\<rparr>"

text \<open>
  \<open>currentTemplate\<close>: the deployed template is read once (the read may throw) and kept.
\<close>

definition currentTemplate ::
  "'t option \<Rightarrow> (error + 't) \<Rightarrow> (error + 't) \<times> 't option" where
  "currentTemplate cached readCurrentTemplate =
     (case cached of
        Some t \<Rightarrow> (Inr t, Some t)
      | None \<Rightarrow>
          (case readCurrentTemplate of
             Inl e \<Rightarrow> (Inl e, None)
           | Inr t \<Rightarrow> (Inr t, Some t)))"

text \<open>
  The resource changes the importer looks at: the entries of \<open>diff.resources.changes\<close>
  but \<open>CDKMetadata\<close>.
\<close>

definition resourceChanges :: "ResourceDifference obj \<Rightarrow> ResourceDifference obj" where
  "resourceChanges changes = filter (\<lambda>(logId, _). logId \<noteq> ''CDKMetadata'') changes"

text \<open>
  \<open>discoverImportableResources\<close>. \<open>fullDiff\<close> (cloudformation-diff) is a parameter: it
  gives the entries of \<open>diff.resources.changes\<close> for the deployed and the new template.
  The result is the messages sent, the template kept, and the value returned or the
  error thrown.
\<close>

definition discoverImportableResources ::
  "('t \<Rightarrow> 'r Template option \<Rightarrow> ResourceDifference obj) \<Rightarrow> 'r Template option \<Rightarrow> bool option
     \<Rightarrow> 't option \<Rightarrow> (error + 't)
     \<Rightarrow> ioLog \<times> 't option \<times> (error + 'r DiscoverImportableResourcesResult)" where
  "discoverImportableResources fullDiff template allowNonAdditions cached readCurrentTemplate =
     (case currentTemplate cached readCurrentTemplate of
        (Inl e, cached') \<Rightarrow> ([], cached', Inl e)
      | (Inr current, cached') \<Rightarrow>
          (let changes = resourceChanges (fullDiff current template);
               nonAdditions = filter (\<lambda>(_, dif). \<not> isAddition dif) changes;
               adds = filter (\<lambda>(_, dif). isAddition dif) changes;
               offendingResources = map (\<lambda>(logId, _). describeResource template logId) nonAdditions;
               ret = \<lparr>additions =
                        map (\<lambda>(logId, dif).
                               \<lparr>logicalId = logId, resourceDiff = dif,
                                resourceDefinition =
                                  addDefaultDeletionPolicy
                                    (case templateResource template logId of
                                       Some r \<Rightarrow> r | None \<Rightarrow> emptyResource)\<rparr>) adds,
                      hasNonAdditions = (length nonAdditions > 0)\<rparr>
           in if length nonAdditions > 0 then
                (if (case allowNonAdditions of Some b \<Rightarrow> b | None \<Rightarrow> False)
                 then ([(Warn, ''Ignoring updated/deleted resources (--force): ''
                                 @ join '', '' offendingResources)], cached', Inr ret)
                 else ([], cached', Inl (NonAdditionsNotAllowed offendingResources)))
              else ([], cached', Inr ret)))"

text \<open>The import candidate made of an added resource.\<close>

definition importCandidate ::
  "'r Template option \<Rightarrow> string \<times> ResourceDifference \<Rightarrow> 'r ImportableResource" where
  "importCandidate template c =
     \<lparr>logicalId = fst c, resourceDiff = snd c,
      resourceDefinition =
        addDefaultDeletionPolicy
          (case templateResource template (fst c) of Some r \<Rightarrow> r | None \<Rightarrow> emptyResource)\<rparr>"

section \<open>deployments/cfn-api.ts: template parameters\<close>

text \<open>
  Modelled from the spec: \<open>cfn-api.ts\<close> (\<open>TemplateParameters\<close> and the
  \<open>ParameterValues\<close> it makes, with \<open>apiParameters\<close> and \<open>hasChanges\<close>) is missing
  from the sources; only its tests (\<open>cloudformation.test.ts\<close>) are there. The resolution
  follows the spec: for each template-declared parameter an override is used if there
  is one (the empty string is an override), else the previous value, else the default
  (the parameter is then left out of the outgoing set), else the parameter is missing a
  value and the operation fails, naming it. Whether the values count as changed is asked
  against a map of current values, as the tests do: it is \<open>'ssm'\<close> when a parameter is
  sourced from the parameter store (a type of the \<open>AWS::SSM::Parameter::\<close> family) and
  its description lacks the no-invalidate marker, and otherwise whether the resolved
  values differ from the current ones. This is what the tests pin: an override equal to
  the current value of a marked parameter is not a change, and a default equal to the
  current value is not a change. Overrides that name no template parameter are passed
  on, as the tests expect.
\<close>

record TemplateParameter =
  Type :: string
  Default :: "string option"
  Description :: "string option"

datatype Parameter = ParameterValue string string | UsePreviousValue string

datatype ParameterChanges = NoChanges | Changes | SsmChanges

text \<open>The value each parameter resolved to is kept in \<open>resolvedValues\<close>.\<close>

record ParameterValues =
  formalParams :: "TemplateParameter obj"
  resolvedValues :: "string obj"
  apiParameters :: "Parameter list"

text \<open>\<open>String.prototype.startsWith\<close> and \<open>includes\<close>.\<close>

fun startsWith :: "string \<Rightarrow> string \<Rightarrow> bool" where
  "startsWith s [] = True"
| "startsWith [] (p # ps) = False"
| "startsWith (c # cs) (p # ps) = (c = p \<and> startsWith cs ps)"

fun stringIncludes :: "string \<Rightarrow> string \<Rightarrow> bool" where
  "stringIncludes [] sub = (sub = [])"
| "stringIncludes (c # cs) sub = (startsWith (c # cs) sub \<or> stringIncludes cs sub)"

text \<open>
  Modelled from the spec: the test of \<open>hasChanges\<close> (missing from the sources) for a
  parameter sourced from the parameter store whose description lacks the no-invalidate
  marker (\<open>SSMPARAM_NO_INVALIDATE\<close> of cx-api, a parameter here).
\<close>

definition isSsmParameter :: "TemplateParameter \<Rightarrow> bool" where
  "isSsmParameter p = startsWith (Type p) ''AWS::SSM::Parameter::''"

definition hasMarker :: "string \<Rightarrow> TemplateParameter \<Rightarrow> bool" where
  "hasMarker marker p = (case Description p of None \<Rightarrow> False | Some d \<Rightarrow> stringIncludes d marker)"

definition ssmInvalidates :: "string \<Rightarrow> TemplateParameter \<Rightarrow> bool" where
  "ssmInvalidates marker p = (isSsmParameter p \<and> \<not> hasMarker marker p)"

text \<open>
  Modelled from the spec: the loop of the \<open>ParameterValues\<close> constructor (missing from
  the sources) over the template parameters. The resolution of one parameter takes the
  values, the outgoing parameters and the parameters missing a value so far, and adds to
  them: override, else previous value, else default, else missing.
\<close>

definition updatedValue :: "string option obj \<Rightarrow> string \<Rightarrow> string option" where
  "updatedValue updates key = (case map_of updates key of Some (Some v) \<Rightarrow> Some v | _ \<Rightarrow> None)"

definition resolveStep ::
  "string option obj \<Rightarrow> string obj \<Rightarrow> string \<times> TemplateParameter
     \<Rightarrow> string obj \<times> Parameter list \<times> string list \<Rightarrow> string obj \<times> Parameter list \<times> string list" where
  "resolveStep updates previousValues entry acc =
     (case (entry, acc) of
        ((key, formalParam), (vals, api, missingRequired)) \<Rightarrow>
          (case updatedValue updates key of
             Some v \<Rightarrow> (assign key v vals, api @ [ParameterValue key v], missingRequired)
           | None \<Rightarrow>
               (case map_of previousValues key of
                  Some prev \<Rightarrow> (assign key prev vals, api @ [UsePreviousValue key], missingRequired)
                | None \<Rightarrow>
                    (case Default formalParam of
                       Some d \<Rightarrow> (assign key d vals, api, missingRequired)
                     | None \<Rightarrow> (vals, api, missingRequired @ [key])))))"

fun resolveAll ::
  "string option obj \<Rightarrow> string obj \<Rightarrow> TemplateParameter obj
     \<Rightarrow> string obj \<times> Parameter list \<times> string list \<Rightarrow> string obj \<times> Parameter list \<times> string list" where
  "resolveAll updates previousValues [] acc = acc"
| "resolveAll updates previousValues (entry # rest) acc =
     resolveAll updates previousValues rest (resolveStep updates previousValues entry acc)"

text \<open>
  Modelled from the spec: the end of the \<open>ParameterValues\<close> constructor (missing from
  the sources). The overrides that name no template parameter and have a (truthy) value
  are passed on; the test "unknown parameter in overrides, pass it anyway" expects it.
\<close>

fun unknownOverrides :: "TemplateParameter obj \<Rightarrow> string option obj \<Rightarrow> (string \<times> string) list" where
  "unknownOverrides formal [] = []"
| "unknownOverrides formal ((key, value) # rest) =
     (if map_of formal key = None \<and> truthy_string value
      then (key, the value) # unknownOverrides formal rest
      else unknownOverrides formal rest)"

fun passUnknown :: "(string \<times> string) list \<Rightarrow> string obj \<times> Parameter list \<Rightarrow> string obj \<times> Parameter list" where
  "passUnknown [] acc = acc"
| "passUnknown ((key, value) # rest) (vals, api) =
     passUnknown rest (assign key value vals, api @ [ParameterValue key value])"

text \<open>
  Modelled from the spec: the \<open>ParameterValues\<close> constructor (missing from the sources),
  which fails when a parameter is missing a value, and \<open>updateExisting\<close> and
  \<open>supplyAll\<close> of \<open>TemplateParameters\<close>, which call it with and without previous
  values.
\<close>

definition newParameterValues ::
  "TemplateParameter obj \<Rightarrow> string option obj \<Rightarrow> string obj \<Rightarrow> error + ParameterValues" where
  "newParameterValues formal updates previousValues =
     (case resolveAll updates previousValues formal ([], [], []) of
        (vals, api, missingRequired) \<Rightarrow>
          if length missingRequired > 0 then Inl (MissingParameterValues missingRequired)
          else (case passUnknown (unknownOverrides formal updates) (vals, api) of
                  (vals', api') \<Rightarrow>
                    Inr \<lparr>formalParams = formal, resolvedValues = vals', apiParameters = api'\<rparr>))"

definition updateExisting ::
  "TemplateParameter obj \<Rightarrow> string option obj \<Rightarrow> string obj \<Rightarrow> error + ParameterValues" where
  "updateExisting formal updates previousValues = newParameterValues formal updates previousValues"

definition supplyAll :: "TemplateParameter obj \<Rightarrow> string option obj \<Rightarrow> error + ParameterValues" where
  "supplyAll formal updates = newParameterValues formal updates []"

text \<open>
  Modelled from the spec: \<open>ParameterValues.hasChanges\<close> (missing from the sources):
  \<open>'ssm'\<close> when a parameter of the parameter store lacks the marker; else \<open>true\<close>
  when a current value is gone or differs, or a resolved value is new; else \<open>false\<close>.
\<close>

definition hasChanges :: "string \<Rightarrow> ParameterValues \<Rightarrow> string obj \<Rightarrow> ParameterChanges" where
  "hasChanges marker pv currentValues =
     (if list_ex (\<lambda>(_, p). ssmInvalidates marker p) (formalParams pv) then SsmChanges
      else if list_ex (\<lambda>(key, value). map_of (resolvedValues pv) key \<noteq> Some value) currentValues then Changes
      else if list_ex (\<lambda>key. map_of currentValues key = None) (Object_keys (resolvedValues pv)) then Changes
      else NoChanges)"

text \<open>A result counts as changed when it is truthy: \<open>true\<close> or \<open>'ssm'\<close>.\<close>

fun countsAsChanged :: "ParameterChanges \<Rightarrow> bool" where
  "countsAsChanged NoChanges = False"
| "countsAsChanged Changes = True"
| "countsAsChanged SsmChanges = True"

text \<open>
  The resolution of a template with one parameter against its previous value, as
  \<open>makeParams\<close> of \<open>cloudformation.test.ts\<close> asks for it: the outgoing parameters, and
  whether the values count as changed against the previous ones.
\<close>

definition resolveParameter ::
  "string \<Rightarrow> string \<Rightarrow> TemplateParameter \<Rightarrow> string option \<Rightarrow> string option
     \<Rightarrow> error + Parameter list \<times> ParameterChanges" where
  "resolveParameter marker key p previous override =
     (let prevParams = (case previous of Some v \<Rightarrow> [(key, v)] | None \<Rightarrow> [])
      in case updateExisting [(key, p)] [(key, override)] prevParams of
           Inl e \<Rightarrow> Inl e
         | Inr stackParams \<Rightarrow> Inr (apiParameters stackParams, hasChanges marker stackParams prevParams))"




section \<open>Example inputs\<close>

text \<open>A stack, and observations of it in each of the states the rollback tells apart.\<close>

definition exampleStack :: StackArtifact where
  "exampleStack =
     \<lparr>stackName = ''MyStack'', cloudFormationExecutionRoleArn = Some ''arn:exec'',
      requiresBootstrapStackVersion = Some 6,
      bootstrapStackVersionSsmParameter = Some ''/cdk-bootstrap/version''\<rparr>"

definition observed :: "string \<Rightarrow> RollbackChoice \<Rightarrow> bool \<Rightarrow> CloudFormationStack" where
  "observed status choice success =
     \<lparr>stackId = ''arn:stack/MyStack'',
      stackStatus = \<lparr>statusText = status, rollbackChoice = choice, isRollbackSuccess = success\<rparr>\<rparr>"

text \<open>
  An iteration in which the stack is found in the given state, every call returns, and
  the stabilisation ends in the given state with the given monitor errors.
\<close>

definition quietIteration ::
  "CloudFormationStack \<Rightarrow> CloudFormationStack \<Rightarrow> string list \<Rightarrow> IterationEnvironment" where
  "quietIteration before after errors =
     \<lparr>lookup = Inr before, replacePlaceholders = Inr, randomUUID = ''token'',
      rollbackStackApi = None, pollResourceErrors = Inr [], continueUpdateRollbackApi = None,
      stabilizeStack = Inr (Some after), monitorErrors = errors\<rparr>"

definition stuckIteration :: IterationEnvironment where
  "stuckIteration =
     quietIteration (observed ''UPDATE_ROLLBACK_FAILED'' CONTINUE_UPDATE_ROLLBACK False)
       (observed ''UPDATE_ROLLBACK_FAILED'' CONTINUE_UPDATE_ROLLBACK False) [''Resource X failed'']"

definition rollbackOptions :: "bool option \<Rightarrow> string list option \<Rightarrow> RollbackStackOptions" where
  "rollbackOptions force orphan =
     \<lparr>stack = exampleStack, roleArn = None, orphanFailedResources = force,
      orphanLogicalIds = orphan, validateBootstrapStackVersionOpt = None\<rparr>"

definition rollbackWorld :: "(nat \<Rightarrow> IterationEnvironment) \<Rightarrow> RollbackEnvironment" where
  "rollbackWorld its =
     \<lparr>accessStackForMutableStackOperations = None, validateVersion = None, iteration = its\<rparr>"

text \<open>
  A stack that is found in \<open>UPDATE_ROLLBACK_FAILED\<close> and is rolled back to
  \<open>UPDATE_ROLLBACK_COMPLETE\<close> by the continued rollback, and a stack that needs no
  rollback.
\<close>

definition recoveringIteration :: IterationEnvironment where
  "recoveringIteration =
     quietIteration (observed ''UPDATE_ROLLBACK_FAILED'' CONTINUE_UPDATE_ROLLBACK False)
       (observed ''UPDATE_ROLLBACK_COMPLETE'' NONE True) []"

definition settledIteration :: IterationEnvironment where
  "settledIteration =
     quietIteration (observed ''UPDATE_COMPLETE'' NONE False) (observed ''UPDATE_COMPLETE'' NONE False) []"

text \<open>Options of a deployment, and an environment in which every call returns.\<close>

definition deployOptions ::
  "DeploymentMethod option \<Rightarrow> string option \<Rightarrow> bool option \<Rightarrow> DeployStackOptions" where
  "deployOptions method name exec =
     \<lparr>stack = exampleStack, roleArn = None, deploymentMethod = method, changeSetName = name,
      execute = exec\<rparr>"

definition deployWorld :: "string DeployEnvironment" where
  "deployWorld =
     \<lparr>accessStackForMutableStackOperations = None, validateVersion = None,
      replacePlaceholdersDeploy = Inr, deployStackFn = (\<lambda>args. Inr ''did-deploy-stack'')\<rparr>"

text \<open>
  A desired template with a bucket and a queue, and the differences of an added and of
  a changed resource.
\<close>

definition desiredTemplate :: "unit Template option" where
  "desiredTemplate =
     Some \<lparr>Resources = Some
       [(''Bucket'', \<lparr>DeletionPolicy = None, cdkPath = Some ''MyStack/Bucket/Resource'',
                      definition_rest = None\<rparr>),
        (''Queue'', \<lparr>DeletionPolicy = Some ''Delete'', cdkPath = Some ''MyStack/Queue/Resource'',
                     definition_rest = None\<rparr>)]\<rparr>"

definition added :: "string \<Rightarrow> ResourceDifference" where
  "added t = \<lparr>isAddition = True, newResourceType = Some t\<rparr>"

definition changed :: "string \<Rightarrow> ResourceDifference" where
  "changed t = \<lparr>isAddition = False, newResourceType = Some t\<rparr>"

definition onlyAdditions :: "unit \<Rightarrow> unit Template option \<Rightarrow> ResourceDifference obj" where
  "onlyAdditions current template =
     [(''CDKMetadata'', changed ''AWS::CDK::Metadata''), (''Bucket'', added ''AWS::S3::Bucket''),
      (''Queue'', added ''AWS::SQS::Queue'')]"

definition withChange :: "unit \<Rightarrow> unit Template option \<Rightarrow> ResourceDifference obj" where
  "withChange current template =
     [(''Bucket'', added ''AWS::S3::Bucket''), (''Queue'', changed ''AWS::SQS::Queue'')]"

section \<open>Properties of the account cache\<close>

lemma length_assign_le: "length (assign k v m) \<le> Suc (length m)"
  unfolding assign_def by (induction m) auto

lemma putMap_bounded: "length (Object_keys (putMap k a m)) \<le> MAX_ENTRIES"
proof (cases "length m \<ge> MAX_ENTRIES")
  case True
  then show ?thesis
    by (simp add: putMap_def Object_keys_def assign_def MAX_ENTRIES_def)
next
  case False
  then have "Suc (length m) \<le> MAX_ENTRIES" by simp
  moreover have "length (assign k a m) \<le> Suc (length m)" by (rule length_assign_le)
  ultimately show ?thesis
    using False by (simp add: putMap_def Object_keys_def)
qed

lemma putMap_reset:
  "length (Object_keys m) \<ge> MAX_ENTRIES \<Longrightarrow> putMap k a m = [(k, a)]"
  by (simp add: putMap_def assign_def)

text \<open>An object stays an object: its keys stay distinct.\<close>

lemma putMap_distinct:
  "distinct (Object_keys m) \<Longrightarrow> distinct (Object_keys (putMap k a m))"
  by (simp add: putMap_def Object_keys_def assign_def distinct_update)

text \<open>
  C10. The account access-key cache never grows beyond \<open>MAX_ENTRIES\<close> (1000): whatever
  map was loaded, a loaded map that already holds at least \<open>MAX_ENTRIES\<close> entries is
  reset to empty before the new entry is inserted, so it is persisted as the single new
  entry, and every map that a \<open>put\<close> persists holds at most \<open>MAX_ENTRIES\<close> entries.
\<close>

theorem put_never_exceeds_MAX_ENTRIES:
  "MAX_ENTRIES = 1000
   \<and> length (Object_keys (putMap k a m0)) \<le> MAX_ENTRIES
   \<and> (length (Object_keys m0) \<ge> MAX_ENTRIES \<longrightarrow> putMap k a m0 = [(k, a)])
   \<and> (put k a readJson writeJson = Saved m \<longrightarrow> length (Object_keys m) \<le> MAX_ENTRIES)"
proof -
  have "length (Object_keys m) \<le> MAX_ENTRIES" if "put k a readJson writeJson = Saved m"
  proof -
    from that obtain m1 where "m = putMap k a m1"
      by (auto simp: put_def saveMap_def split: sum.splits option.splits if_splits)
    then show ?thesis by (simp add: putMap_bounded)
  qed
  then have saved: "put k a readJson writeJson = Saved m \<longrightarrow> length (Object_keys m) \<le> MAX_ENTRIES"
    by blast
  have reset: "length (Object_keys m0) \<ge> MAX_ENTRIES \<longrightarrow> putMap k a m0 = [(k, a)]"
    by (simp add: putMap_reset)
  from MAX_ENTRIES_def putMap_bounded [of k a m0] reset saved show ?thesis
    by blast
qed

text \<open>
  A full cache of 1000 distinct keys: the next \<open>put\<close> persists exactly the new entry.
\<close>

theorem put_never_exceeds_MAX_ENTRIES_witness:
  "length (Object_keys (map (\<lambda>i. (replicate i (CHR ''K''), \<lparr>accountId = ''1'', partition = ''aws''\<rparr>)) [0..<1000]))
     \<ge> MAX_ENTRIES
   \<and> put ''AKIA'' \<lparr>accountId = ''2'', partition = ''aws''\<rparr>
       (Inr (map (\<lambda>i. (replicate i (CHR ''K''), \<lparr>accountId = ''1'', partition = ''aws''\<rparr>)) [0..<1000])) None
     = Saved [(''AKIA'', \<lparr>accountId = ''2'', partition = ''aws''\<rparr>)]
   \<and> length (Object_keys [(''AKIA'', \<lparr>accountId = ''2'', partition = ''aws''\<rparr>)]) \<le> MAX_ENTRIES"
  using put_never_exceeds_MAX_ENTRIES
    [of "''AKIA''" "\<lparr>accountId = ''2'', partition = ''aws''\<rparr>"
        "map (\<lambda>i. (replicate i (CHR ''K''), \<lparr>accountId = ''1'', partition = ''aws''\<rparr>)) [0..<1000]"
        "Inr (map (\<lambda>i. (replicate i (CHR ''K''), \<lparr>accountId = ''1'', partition = ''aws''\<rparr>)) [0..<1000])"
        None
        "[(''AKIA'', \<lparr>accountId = ''2'', partition = ''aws''\<rparr>)]"]
  by (simp add: Object_keys_def MAX_ENTRIES_def put_def loadMap_def saveMap_def)

section \<open>Properties of the asset preparation\<close>

lemma map_of_assign: "map_of (assign k v m) k = Some v"
  by (simp add: assign_def update_conv')

text \<open>
  C6. For every file asset, the destination object key formed by the manifest builder is
  \<open>assets/<sourceHash><ext>\<close> when the asset's id equals its source hash and
  \<open>assets/<id>/<sourceHash><ext>\<close> otherwise, where \<open><ext>\<close> is \<open>.zip\<close> for
  directory (zip) packaging and the extension of the asset path (\<open>path.extname\<close>)
  otherwise. \<open>prepareAsset\<close> always succeeds on a file asset, and passes
  \<open>ZIP_DIRECTORY\<close> exactly for the packaging \<open>'zip'\<close>.
\<close>

theorem file_asset_object_key:
  "prepareAsset lib (FileAssetEntry asset) b ecr tk =
     Inr (prepareFileAsset lib asset b tk
            (if packaging asset = PackagingZip then ZIP_DIRECTORY else FILE))
   \<and> destinationKey (fst (snd (prepareFileAsset lib asset b tk pkg))) (sourceHash asset) =
       Some (if assetId asset = sourceHash asset
             then ''assets/'' @ sourceHash asset
                    @ (if pkg = ZIP_DIRECTORY then ''.zip'' else extname lib (path asset))
             else ''assets/'' @ assetId asset @ ''/'' @ sourceHash asset
                    @ (if pkg = ZIP_DIRECTORY then ''.zip'' else extname lib (path asset)))"
  by (simp add: prepareFileAsset_def destinationKey_def addFileAsset_def map_of_assign Let_def)

text \<open>
  The two shapes of the key on concrete assets: a zipped directory whose id is its hash,
  and a single file with an id of its own.
\<close>

lemma file_asset_object_key_examples:
  "destinationKey (fst (snd (prepareFileAsset
       \<lparr>extname = (\<lambda>p. ''.txt''), toLowerCase = (\<lambda>s. s), ASSET_PREFIX_SEPARATOR = ''||''\<rparr>
       \<lparr>assetId = ''abc123'', packaging = PackagingZip, path = ''asset.abc123'',
        sourceHash = ''abc123'', s3BucketParameter = ''B'', s3KeyParameter = ''K'',
        artifactHashParameter = ''H''\<rparr>
       \<lparr>files = [], dockerImages = []\<rparr> \<lparr>found = True, bucketName = ''bucket''\<rparr> ZIP_DIRECTORY)))
     ''abc123'' = Some ''assets/abc123.zip''"
  "destinationKey (fst (snd (prepareFileAsset
       \<lparr>extname = (\<lambda>p. ''.txt''), toLowerCase = (\<lambda>s. s), ASSET_PREFIX_SEPARATOR = ''||''\<rparr>
       \<lparr>assetId = ''MyAsset'', packaging = PackagingFile, path = ''asset.abc123.txt'',
        sourceHash = ''abc123'', s3BucketParameter = ''B'', s3KeyParameter = ''K'',
        artifactHashParameter = ''H''\<rparr>
       \<lparr>files = [], dockerImages = []\<rparr> \<lparr>found = True, bucketName = ''bucket''\<rparr> FILE)))
     ''abc123'' = Some ''assets/MyAsset/abc123.txt''"
  by (simp_all add: prepareFileAsset_def destinationKey_def addFileAsset_def assign_def Let_def)

section \<open>Properties of \<open>deployStack\<close>\<close>

text \<open>
  C9 (as amended). For every \<open>deployStack\<close> invocation, a \<open>deploymentMethod\<close> together
  with a non-empty \<open>changeSetName\<close> or with an \<open>execute\<close> flag (\<open>true\<close> or
  \<open>false\<close>) throws \<open>BothDeploymentMethodAndLegacy\<close> before any environment access
  or remote call; when only these legacy options are supplied, they are translated into
  a change-set deployment method carrying the given change-set name and execute flag, and
  that method is what the deployment is called with.
\<close>

theorem deployment_method_excludes_legacy_options:
  "(deploymentMethod options \<noteq> None
      \<and> (truthy_string (changeSetName options) \<or> execute options \<noteq> None)
    \<longrightarrow> deployStack options env = (emptyTrace, Inl BothDeploymentMethodAndLegacy)
        \<and> calls emptyTrace = [])
   \<and> (deploymentMethod options = None
      \<and> (truthy_string (changeSetName options) \<or> execute options \<noteq> None)
      \<and> DeployStackCall args \<in> set (calls (fst (deployStack options env)))
    \<longrightarrow> argDeploymentMethod args
          = Some (ChangeSetDeployment (changeSetName options) (execute options)))
   \<and> (deploymentMethod options = None
      \<and> (truthy_string (changeSetName options) \<or> execute options \<noteq> None)
    \<longrightarrow> resolveDeploymentMethod options
          = Inr (Some (ChangeSetDeployment (changeSetName options) (execute options))))"
  by (auto simp: deployStack_def resolveDeploymentMethod_def legacyOptionsGiven_def Let_def
        validateBootstrapStackVersion_def call_def emptyTrace_def
      split: option.splits sum.splits)

theorem deployment_method_excludes_legacy_options_witness:
  "deployStack (deployOptions (Some DirectDeployment) (Some ''my-change-set'') None) deployWorld
     = (\<lparr>calls = [], io = []\<rparr>, Inl BothDeploymentMethodAndLegacy)
   \<and> calls (fst (deployStack (deployOptions None (Some ''my-change-set'') (Some False)) deployWorld))
     = [AccessStackForMutableStackOperations ''MyStack'',
        ValidateVersion (Some 6) (Some ''/cdk-bootstrap/version''),
        ReplacePlaceholders (Some ''arn:exec''),
        DeployStackCall \<lparr>argStack = exampleStack, argRoleArn = Some ''arn:exec'',
          argDeploymentMethod = Some (ChangeSetDeployment (Some ''my-change-set'') (Some False))\<rparr>]
   \<and> resolveDeploymentMethod (deployOptions None (Some ''my-change-set'') (Some False))
     = Inr (Some (ChangeSetDeployment (Some ''my-change-set'') (Some False)))"
proof -
  have d: "calls (fst (deployStack (deployOptions None (Some ''my-change-set'') (Some False)) deployWorld))
     = [AccessStackForMutableStackOperations ''MyStack'',
        ValidateVersion (Some 6) (Some ''/cdk-bootstrap/version''),
        ReplacePlaceholders (Some ''arn:exec''),
        DeployStackCall \<lparr>argStack = exampleStack, argRoleArn = Some ''arn:exec'',
          argDeploymentMethod = Some (ChangeSetDeployment (Some ''my-change-set'') (Some False))\<rparr>]"
    by (simp add: deployStack_def resolveDeploymentMethod_def legacyOptionsGiven_def Let_def
        validateBootstrapStackVersion_def call_def emptyTrace_def deployOptions_def deployWorld_def
        exampleStack_def)
  from deployment_method_excludes_legacy_options
         [of "deployOptions (Some DirectDeployment) (Some ''my-change-set'') None" deployWorld]
  have t: "deployStack (deployOptions (Some DirectDeployment) (Some ''my-change-set'') None) deployWorld
     = (emptyTrace, Inl BothDeploymentMethodAndLegacy)"
    by (simp add: deployOptions_def)
  from deployment_method_excludes_legacy_options
         [of "deployOptions None (Some ''my-change-set'') (Some False)" deployWorld
             "\<lparr>argStack = exampleStack, argRoleArn = Some ''arn:exec'',
               argDeploymentMethod = Some (ChangeSetDeployment (Some ''my-change-set'') (Some False))\<rparr>"]
  have r: "resolveDeploymentMethod (deployOptions None (Some ''my-change-set'') (Some False))
     = Inr (Some (ChangeSetDeployment (Some ''my-change-set'') (Some False)))"
    by (simp add: deployOptions_def)
  from d t r show ?thesis by (simp add: emptyTrace_def)
qed

text \<open>
  C9 as stated fails for a \<open>changeSetName\<close> that is supplied but empty: it is falsy, so
  together with a \<open>deploymentMethod\<close> nothing is thrown and the deployment runs with
  the supplied method.
\<close>

theorem empty_change_set_name_with_deployment_method:
  "deployStack (deployOptions (Some DirectDeployment) (Some '''') None) deployWorld
   = (\<lparr>calls = [AccessStackForMutableStackOperations ''MyStack'',
                ValidateVersion (Some 6) (Some ''/cdk-bootstrap/version''),
                ReplacePlaceholders (Some ''arn:exec''),
                DeployStackCall \<lparr>argStack = exampleStack, argRoleArn = Some ''arn:exec'',
                  argDeploymentMethod = Some DirectDeployment\<rparr>],
       io = []\<rparr>, Inr ''did-deploy-stack'')"
  by (simp add: deployStack_def resolveDeploymentMethod_def legacyOptionsGiven_def Let_def
        validateBootstrapStackVersion_def call_def emptyTrace_def deployOptions_def deployWorld_def
        exampleStack_def)

section \<open>Properties of \<open>rollbackStack\<close>\<close>

lemma mutatingCalls_call: "mutatingCalls (call c t) = mutatingCalls t @ (if mutating c then [c] else [])"
  by (simp add: mutatingCalls_def call_def)
lemma mutatingCalls_say: "mutatingCalls (say l m t) = mutatingCalls t"
  by (simp add: mutatingCalls_def say_def)
lemma mutatingCalls_empty: "mutatingCalls emptyTrace = []"
  by (simp add: mutatingCalls_def emptyTrace_def)
lemma mutatingCalls_append: "mutatingCalls (appendTrace t t') = mutatingCalls t @ mutatingCalls t'"
  by (simp add: mutatingCalls_def appendTrace_def)

lemma monitor_mut: "mutatingCalls (fst (monitorAndStabilize options dn e cfs skip t)) = mutatingCalls t"
  by (simp add: monitorAndStabilize_def Let_def mutatingCalls_call split: sum.splits option.splits prod.splits)

lemma iteration_mut:
  "length (mutatingCalls (fst (rollbackIteration options dn e skip))) \<le> 1"
  by (simp add: rollbackIteration_def Let_def mutatingCalls_call mutatingCalls_say mutatingCalls_empty monitor_mut split: sum.splits option.splits RollbackChoice.splits prod.splits)

lemma loop_mut:
  "length (mutatingCalls (fst (rollbackLoop options dn env i n skip t))) \<le> length (mutatingCalls t) + n"
proof (induction n arbitrary: i skip t)
  case 0
  then show ?case by simp
next
  case (Suc n)
  obtain t' step where it: "rollbackIteration options dn (env i) skip = (t', step)"
    by (cases "rollbackIteration options dn (env i) skip")
  have m: "length (mutatingCalls t') \<le> 1"
    using iteration_mut [of options dn "env i" skip] it by simp
  show ?case
  proof (cases step)
    case (Return r)
    with it m show ?thesis by (simp add: mutatingCalls_append)
  next
    case (Throw e)
    with it m show ?thesis by (simp add: mutatingCalls_append)
  next
    case (Continue toSkip)
    have "length (mutatingCalls (fst (rollbackLoop options dn env (Suc i) n toSkip (appendTrace t t'))))
            \<le> length (mutatingCalls (appendTrace t t')) + n"
      by (rule Suc.IH)
    with it m Continue show ?thesis by (simp add: mutatingCalls_append)
  qed
qed

lemma loop_no_progress:
  "(\<forall>j<n. \<forall>skip. continues (snd (rollbackIteration options dn (env (i + j)) skip)))
   \<Longrightarrow> snd (rollbackLoop options dn env i n skip t) = Inl RollbackNoProgress"
proof (induction n arbitrary: i skip t)
  case 0
  then show ?case by simp
next
  case (Suc n)
  from Suc.prems have "continues (snd (rollbackIteration options dn (env (i + 0)) skip))"
    by blast
  then obtain t' toSkip where it: "rollbackIteration options dn (env i) skip = (t', Continue toSkip)"
    by (cases "rollbackIteration options dn (env i) skip"; cases "snd (rollbackIteration options dn (env i) skip)") auto
  have "\<forall>j<n. \<forall>skip. continues (snd (rollbackIteration options dn (env (Suc i + j)) skip))"
  proof (intro allI impI)
    fix j skip assume "j < n"
    then have "Suc j < Suc n" by simp
    with Suc.prems have "continues (snd (rollbackIteration options dn (env (i + Suc j)) skip))" by blast
    then show "continues (snd (rollbackIteration options dn (env (Suc i + j)) skip))" by simp
  qed
  then have "snd (rollbackLoop options dn env (Suc i) n toSkip (appendTrace t t')) = Inl RollbackNoProgress"
    by (rule Suc.IH)
  with it show ?case by simp
qed

lemma loop_returns:
  "snd (rollbackLoop options dn env i n skip t) = Inr r
   \<Longrightarrow> \<exists>j<n. \<exists>skip'. snd (rollbackIteration options dn (env (i + j)) skip') = Return r"
proof (induction n arbitrary: i skip t)
  case 0
  then show ?case by simp
next
  case (Suc n)
  obtain t' step where it: "rollbackIteration options dn (env i) skip = (t', step)"
    by (cases "rollbackIteration options dn (env i) skip")
  show ?case
  proof (cases step)
    case (Return r')
    with it Suc.prems have "r' = r" by simp
    with it Return have "snd (rollbackIteration options dn (env (i + 0)) skip) = Return r" by simp
    then show ?thesis by blast
  next
    case (Throw e)
    with it Suc.prems show ?thesis by simp
  next
    case (Continue toSkip)
    with it Suc.prems have "snd (rollbackLoop options dn env (Suc i) n toSkip (appendTrace t t')) = Inr r"
      by simp
    then obtain j skip' where "j < n" "snd (rollbackIteration options dn (env (Suc i + j)) skip') = Return r"
      using Suc.IH by blast
    then have "Suc j < Suc n \<and> snd (rollbackIteration options dn (env (i + Suc j)) skip') = Return r"
      by simp
    then show ?thesis by blast
  qed
qed

lemma rollbackStack_mut: "length (mutatingCalls (fst (rollbackStack options env))) \<le> 10"
proof -
  have L: "length (mutatingCalls (fst (rollbackLoop options dn (iteration env) 0 10 skip t))) \<le> 10"
    if "mutatingCalls t = []" for dn skip t
    using loop_mut [of options dn "iteration env" 0 10 skip t] that by simp
  show ?thesis
    by (simp add: rollbackStack_def Let_def validateBootstrapStackVersion_def mutatingCalls_call
          mutatingCalls_empty L split: option.splits)
qed

text \<open>
  C2. For every input to \<open>rollbackStack\<close> and every sequence of observations, the
  operation issues at most 10 state-changing calls (\<open>rollbackStack\<close> and
  \<open>continueUpdateRollback\<close> of the API), at most one in each round of the loop. When
  the validation and the access to the environment pass and each of the 10 rounds asks
  for another one, so that the budget is exhausted, the operation throws the error
  \<open>RollbackNoProgress\<close>; and whenever the operation returns a result, a round of the
  loop returned it.
\<close>

theorem rollback_at_most_ten_mutating_calls:
  "length (mutatingCalls (fst (rollbackStack options env))) \<le> 10
   \<and> length (mutatingCalls (fst (rollbackIteration options dn e skip))) \<le> 1
   \<and> (\<not> (truthy_bool (orphanFailedResources options) \<and> orphanLogicalIds options \<notin> {None, Some []})
        \<and> accessStackForMutableStackOperations env = None \<and> validateVersion env = None
        \<and> (\<forall>i<10. \<forall>skip. continues (snd (rollbackIteration options (stackName (stack options))
                                              (iteration env i) skip)))
      \<longrightarrow> snd (rollbackStack options env) = Inl RollbackNoProgress)
   \<and> (\<forall>r. snd (rollbackStack options env) = Inr r
        \<longrightarrow> (\<exists>i<10. \<exists>skip. snd (rollbackIteration options (stackName (stack options))
                                    (iteration env i) skip) = Return r))"
proof (intro conjI allI impI)
  show "length (mutatingCalls (fst (rollbackStack options env))) \<le> 10"
    by (rule rollbackStack_mut)
  show "length (mutatingCalls (fst (rollbackIteration options dn e skip))) \<le> 1"
    by (rule iteration_mut)
next
  assume a: "\<not> (truthy_bool (orphanFailedResources options) \<and> orphanLogicalIds options \<notin> {None, Some []})
        \<and> accessStackForMutableStackOperations env = None \<and> validateVersion env = None
        \<and> (\<forall>i<10. \<forall>skip. continues (snd (rollbackIteration options (stackName (stack options))
                                              (iteration env i) skip)))"
  then have "\<forall>j<10. \<forall>skip. continues (snd (rollbackIteration options (stackName (stack options))
                                              (iteration env (0 + j)) skip))"
    by simp
  then have L: "snd (rollbackLoop options (stackName (stack options)) (iteration env) 0 10 skip t)
               = Inl RollbackNoProgress" for skip t
    by (rule loop_no_progress)
  from a show "snd (rollbackStack options env) = Inl RollbackNoProgress"
    by (auto simp: rollbackStack_def Let_def validateBootstrapStackVersion_def L split: option.splits)
next
  fix r assume r: "snd (rollbackStack options env) = Inr r"
  then obtain skip t where
    "snd (rollbackLoop options (stackName (stack options)) (iteration env) 0 10 skip t) = Inr r"
    by (auto simp: rollbackStack_def Let_def validateBootstrapStackVersion_def
             split: option.splits if_splits)
  then obtain j skip' where "j < 10"
    "snd (rollbackIteration options (stackName (stack options)) (iteration env (0 + j)) skip') = Return r"
    using loop_returns by blast
  then show "\<exists>i<10. \<exists>skip. snd (rollbackIteration options (stackName (stack options))
                                    (iteration env i) skip) = Return r"
    by auto
qed

text \<open>
  A stack that stays in \<open>UPDATE_ROLLBACK_FAILED\<close> whatever is orphaned: each round
  continues the rollback and asks for another round.
\<close>

lemma stuck_continues:
  "rollbackIteration (rollbackOptions (Some True) None) ''MyStack'' stuckIteration skip
   = (\<lparr>calls = [Lookup ''MyStack'', ReplacePlaceholders (Some ''arn:exec''),
                PollStackEvents ''MyStack'' [''ROLLBACK_IN_PROGRESS'', ''UPDATE_ROLLBACK_IN_PROGRESS''],
                ContinueUpdateRollbackCall \<lparr>cuStackName = ''MyStack'', cuClientRequestToken = ''token'',
                   cuRoleARN = Some ''arn:exec'', cuResourcesToSkip = []\<rparr>,
                MonitorStart ''MyStack'', StabilizeStack ''MyStack'', MonitorStop],
        io = [(Warn, ''Continuing rollback of stack MyStack'')]\<rparr>, Continue [])"
  by (simp add: rollbackIteration_def monitorAndStabilize_def rollbackOptions_def stuckIteration_def
        quietIteration_def observed_def exampleStack_def call_def say_def emptyTrace_def
        failedResources_def Let_def)

lemma stuck_loop_calls:
  "length (mutatingCalls (fst (rollbackLoop (rollbackOptions (Some True) None) ''MyStack''
                                 (\<lambda>i. stuckIteration) i n skip t)))
   = length (mutatingCalls t) + n"
  by (induction n arbitrary: i skip t)
     (simp_all add: stuck_continues mutatingCalls_append, simp add: mutatingCalls_def)

lemma stuck_ten_calls:
  "length (mutatingCalls (fst (rollbackStack (rollbackOptions (Some True) None)
                                    (rollbackWorld (\<lambda>i. stuckIteration))))) = 10"
proof -
  have o: "stackName (stack (rollbackOptions (Some True) None)) = ''MyStack''"
    "orphanLogicalIds (rollbackOptions (Some True) None) = None"
    "validateBootstrapStackVersionOpt (rollbackOptions (Some True) None) = None"
    by (simp_all add: rollbackOptions_def exampleStack_def)
  show ?thesis
    by (simp add: rollbackStack_def o rollbackWorld_def validateBootstrapStackVersion_def
          stuck_loop_calls mutatingCalls_call mutatingCalls_empty)
qed

theorem rollback_at_most_ten_mutating_calls_witness:
  "snd (rollbackStack (rollbackOptions (Some True) None) (rollbackWorld (\<lambda>i. stuckIteration)))
     = Inl RollbackNoProgress
   \<and> length (mutatingCalls (fst (rollbackStack (rollbackOptions (Some True) None)
                                    (rollbackWorld (\<lambda>i. stuckIteration))))) = 10"
proof -
  have "stackName (stack (rollbackOptions (Some True) None)) = ''MyStack''"
    by (simp add: rollbackOptions_def exampleStack_def)
  then have c: "\<forall>i<10. \<forall>skip. continues (snd (rollbackIteration (rollbackOptions (Some True) None)
              (stackName (stack (rollbackOptions (Some True) None)))
              (iteration (rollbackWorld (\<lambda>i. stuckIteration)) i) skip))"
    by (simp add: stuck_continues rollbackWorld_def)
  have p: "\<not> (truthy_bool (orphanFailedResources (rollbackOptions (Some True) None))
              \<and> orphanLogicalIds (rollbackOptions (Some True) None) \<notin> {None, Some []})
           \<and> accessStackForMutableStackOperations (rollbackWorld (\<lambda>i. stuckIteration)) = None
           \<and> validateVersion (rollbackWorld (\<lambda>i. stuckIteration)) = None"
    by (simp add: rollbackOptions_def rollbackWorld_def)
  from rollback_at_most_ten_mutating_calls
         [of "rollbackOptions (Some True) None" "rollbackWorld (\<lambda>i. stuckIteration)"
             "''MyStack''" stuckIteration "[]"] c p
  have "snd (rollbackStack (rollbackOptions (Some True) None) (rollbackWorld (\<lambda>i. stuckIteration)))
     = Inl RollbackNoProgress"
    by blast
  with stuck_ten_calls show ?thesis by simp
qed

lemma not_rollbackable_round:
  assumes "lookup e = Inr cfs"
    and "replacePlaceholders e (nullish (roleArn options) (cloudFormationExecutionRoleArn (stack options))) = Inr arn"
    and "rollbackChoice (stackStatus cfs) = NONE \<or> rollbackChoice (stackStatus cfs) = ROLLBACK_FAILED"
  shows "snd (rollbackIteration options dn e skip) = Return (NotInRollbackableState (stackId cfs))"
    and "mutatingCalls (fst (rollbackIteration options dn e skip)) = []"
  using assms
  by (auto simp: rollbackIteration_def Let_def mutatingCalls_call mutatingCalls_say mutatingCalls_empty)

lemma not_rollbackable_first_round:
  assumes "lookup (iteration env 0) = Inr cfs"
    and "replacePlaceholders (iteration env 0)
           (nullish (roleArn options) (cloudFormationExecutionRoleArn (stack options))) = Inr arn"
    and "rollbackChoice (stackStatus cfs) = NONE \<or> rollbackChoice (stackStatus cfs) = ROLLBACK_FAILED"
    and "\<not> (truthy_bool (orphanFailedResources options) \<and> orphanLogicalIds options \<notin> {None, Some []})"
    and "accessStackForMutableStackOperations env = None"
    and "validateVersion env = None"
  shows "snd (rollbackStack options env) = Inr (NotInRollbackableState (stackId cfs))
         \<and> mutatingCalls (fst (rollbackStack options env)) = []"
proof -
  let ?dn = "stackName (stack options)"
  have s: "snd (rollbackIteration options ?dn (iteration env 0) skip)
             = Return (NotInRollbackableState (stackId cfs))" for skip
    using assms(1-3) by (rule not_rollbackable_round(1))
  have m: "mutatingCalls (fst (rollbackIteration options ?dn (iteration env 0) skip)) = []" for skip
    using assms(1-3) by (rule not_rollbackable_round(2))
  have L: "snd (rollbackLoop options ?dn (iteration env) 0 (Suc n) skip t)
             = Inr (NotInRollbackableState (stackId cfs))
           \<and> mutatingCalls (fst (rollbackLoop options ?dn (iteration env) 0 (Suc n) skip t)) = mutatingCalls t"
    for skip t n
  proof -
    obtain t' where "rollbackIteration options ?dn (iteration env 0) skip
                       = (t', Return (NotInRollbackableState (stackId cfs)))"
      using s [of skip] by (cases "rollbackIteration options ?dn (iteration env 0) skip") auto
    moreover from this have "mutatingCalls t' = []" using m [of skip] by simp
    ultimately show ?thesis by (simp add: mutatingCalls_append)
  qed
  have ten: "(10::nat) = Suc 9" by simp
  have L10: "snd (rollbackLoop options ?dn (iteration env) 0 10 skip t)
               = Inr (NotInRollbackableState (stackId cfs))
             \<and> mutatingCalls (fst (rollbackLoop options ?dn (iteration env) 0 10 skip t)) = mutatingCalls t"
    for skip t
    unfolding ten by (rule L)
  from assms(4-6) show ?thesis
    by (auto simp: rollbackStack_def Let_def validateBootstrapStackVersion_def L10 mutatingCalls_call
          mutatingCalls_empty split: option.splits)
qed

text \<open>
  The trace of the loop is the trace so far followed by what the loop adds, and a loop
  whose round \<open>i\<close> is the first not to ask for another one, because it finds the stack
  not rollbackable, ends with that round.
\<close>

lemma appendTrace_simps:
  "appendTrace t emptyTrace = t"
  "appendTrace emptyTrace t = t"
  "appendTrace (appendTrace a b) c = appendTrace a (appendTrace b c)"
  by (simp_all add: appendTrace_def emptyTrace_def)

lemma loop_from_trace:
  "rollbackLoop options dn env i n skip t
   = (appendTrace t (fst (rollbackLoop options dn env i n skip emptyTrace)),
      snd (rollbackLoop options dn env i n skip emptyTrace))"
proof (induction n arbitrary: i skip t)
  case 0
  then show ?case by (simp add: appendTrace_simps)
next
  case (Suc n)
  obtain t' step where it: "rollbackIteration options dn (env i) skip = (t', step)"
    by (cases "rollbackIteration options dn (env i) skip")
  show ?case
  proof (cases step)
    case (Return r)
    with it show ?thesis by (simp add: appendTrace_simps)
  next
    case (Throw e)
    with it show ?thesis by (simp add: appendTrace_simps)
  next
    case (Continue toSkip)
    have a: "rollbackLoop options dn env (Suc i) n toSkip (appendTrace t t')
          = (appendTrace (appendTrace t t') (fst (rollbackLoop options dn env (Suc i) n toSkip emptyTrace)),
             snd (rollbackLoop options dn env (Suc i) n toSkip emptyTrace))"
      by (rule Suc.IH)
    have b: "rollbackLoop options dn env (Suc i) n toSkip (appendTrace emptyTrace t')
          = (appendTrace (appendTrace emptyTrace t') (fst (rollbackLoop options dn env (Suc i) n toSkip emptyTrace)),
             snd (rollbackLoop options dn env (Suc i) n toSkip emptyTrace))"
      by (rule Suc.IH)
    from it Continue a b show ?thesis by (simp add: appendTrace_simps)
  qed
qed

lemma not_rollbackable_round_trace:
  assumes "lookup e = Inr cfs"
    and "replacePlaceholders e (nullish (roleArn options) (cloudFormationExecutionRoleArn (stack options))) = Inr arn"
    and "rollbackChoice (stackStatus cfs) = NONE \<or> rollbackChoice (stackStatus cfs) = ROLLBACK_FAILED"
  shows "rollbackIteration options dn e skip
         = (fst (rollbackIteration options dn e []), Return (NotInRollbackableState (stackId cfs)))"
  using assms
  by (auto simp: rollbackIteration_def Let_def)

lemma loop_reaches_not_rollbackable:
  assumes "\<forall>j<i. \<forall>skip. continues (snd (rollbackIteration options dn (env (k + j)) skip))"
    and "lookup (env (k + i)) = Inr cfs"
    and "replacePlaceholders (env (k + i))
           (nullish (roleArn options) (cloudFormationExecutionRoleArn (stack options))) = Inr arn"
    and "rollbackChoice (stackStatus cfs) = NONE \<or> rollbackChoice (stackStatus cfs) = ROLLBACK_FAILED"
    and "i < n"
  shows "rollbackLoop options dn env k n skip t
         = (appendTrace (fst (rollbackLoop options dn env k i skip t))
              (fst (rollbackIteration options dn (env (k + i)) [])),
            Inr (NotInRollbackableState (stackId cfs)))"
  using assms
proof (induction i arbitrary: k n skip t)
  case 0
  then obtain n' where n: "n = Suc n'" by (cases n) auto
  from "0.prems"(2-4) have
    "rollbackIteration options dn (env k) skip
       = (fst (rollbackIteration options dn (env k) []), Return (NotInRollbackableState (stackId cfs)))"
    using not_rollbackable_round_trace [of "env k" cfs options arn dn skip] by simp
  with n show ?case by simp
next
  case (Suc i)
  then obtain n' where n: "n = Suc n'" and lt: "i < n'" by (cases n) auto
  from Suc.prems(1) have "continues (snd (rollbackIteration options dn (env (k + 0)) skip))"
    by blast
  then obtain t' toSkip where it: "rollbackIteration options dn (env k) skip = (t', Continue toSkip)"
    by (cases "rollbackIteration options dn (env k) skip";
        cases "snd (rollbackIteration options dn (env k) skip)") auto
  have c: "\<forall>j<i. \<forall>skip. continues (snd (rollbackIteration options dn (env (Suc k + j)) skip))"
  proof (intro allI impI)
    fix j skip assume "j < i"
    then have "Suc j < Suc i" by simp
    with Suc.prems(1) have "continues (snd (rollbackIteration options dn (env (k + Suc j)) skip))"
      by blast
    then show "continues (snd (rollbackIteration options dn (env (Suc k + j)) skip))" by simp
  qed
  from Suc.prems(2,3) have o: "lookup (env (Suc k + i)) = Inr cfs"
    "replacePlaceholders (env (Suc k + i))
           (nullish (roleArn options) (cloudFormationExecutionRoleArn (stack options))) = Inr arn"
    by simp_all
  have "rollbackLoop options dn env (Suc k) n' toSkip (appendTrace t t')
         = (appendTrace (fst (rollbackLoop options dn env (Suc k) i toSkip (appendTrace t t')))
              (fst (rollbackIteration options dn (env (Suc k + i)) [])),
            Inr (NotInRollbackableState (stackId cfs)))"
    using Suc.IH [OF c o Suc.prems(4) lt] .
  with it n show ?case by simp
qed


lemma rollbackStack_preamble:
  assumes "\<not> (truthy_bool (orphanFailedResources options) \<and> orphanLogicalIds options \<notin> {None, Some []})"
    and "accessStackForMutableStackOperations env = None"
    and "validateVersion env = None"
  shows "\<exists>t0. mutatingCalls t0 = []
           \<and> rollbackStack options env
               = rollbackLoop options (stackName (stack options)) (iteration env) 0 10
                   (case orphanLogicalIds options of Some ids \<Rightarrow> ids | None \<Rightarrow> []) t0"
proof (cases "case validateBootstrapStackVersionOpt options of Some b \<Rightarrow> b | None \<Rightarrow> True")
  case True
  let ?t = "call (ValidateVersion (Some BOOTSTRAP_STACK_VERSION_FOR_ROLLBACK)
                    (bootstrapStackVersionSsmParameter (stack options)))
              (call (AccessStackForMutableStackOperations (stackName (stack options))) emptyTrace)"
  have "mutatingCalls ?t = []"
    by (simp add: mutatingCalls_call mutatingCalls_empty)
  moreover from assms True have
    "rollbackStack options env
       = rollbackLoop options (stackName (stack options)) (iteration env) 0 10
           (case orphanLogicalIds options of Some ids \<Rightarrow> ids | None \<Rightarrow> []) ?t"
    by (auto simp: rollbackStack_def Let_def validateBootstrapStackVersion_def split: option.splits)
  ultimately show ?thesis by blast
next
  case False
  let ?t = "call (AccessStackForMutableStackOperations (stackName (stack options))) emptyTrace"
  have "mutatingCalls ?t = []"
    by (simp add: mutatingCalls_call mutatingCalls_empty)
  moreover from assms False have
    "rollbackStack options env
       = rollbackLoop options (stackName (stack options)) (iteration env) 0 10
           (case orphanLogicalIds options of Some ids \<Rightarrow> ids | None \<Rightarrow> []) ?t"
    by (auto simp: rollbackStack_def Let_def validateBootstrapStackVersion_def split: option.splits)
  ultimately show ?thesis by blast
qed

lemma not_rollbackable_any_round:
  assumes pre: "\<not> (truthy_bool (orphanFailedResources options) \<and> orphanLogicalIds options \<notin> {None, Some []})"
      "accessStackForMutableStackOperations env = None" "validateVersion env = None"
    and i: "i < 10"
    and earlier: "\<forall>j<i. \<forall>skip. continues (snd (rollbackIteration options (stackName (stack options))
                                              (iteration env j) skip))"
    and obs: "lookup (iteration env i) = Inr cfs"
      "replacePlaceholders (iteration env i)
         (nullish (roleArn options) (cloudFormationExecutionRoleArn (stack options))) = Inr arn"
      "rollbackChoice (stackStatus cfs) = NONE \<or> rollbackChoice (stackStatus cfs) = ROLLBACK_FAILED"
  shows "snd (rollbackStack options env) = Inr (NotInRollbackableState (stackId cfs))"
    and "\<exists>t0. mutatingCalls t0 = []
           \<and> fst (rollbackStack options env)
               = appendTrace
                   (fst (rollbackLoop options (stackName (stack options)) (iteration env) 0 i
                           (case orphanLogicalIds options of Some ids \<Rightarrow> ids | None \<Rightarrow> []) t0))
                   (fst (rollbackIteration options (stackName (stack options)) (iteration env i) []))"
    and "mutatingCalls (fst (rollbackStack options env))
           = mutatingCalls (fst (rollbackLoop options (stackName (stack options)) (iteration env) 0 i
                                   (case orphanLogicalIds options of Some ids \<Rightarrow> ids | None \<Rightarrow> [])
                                   emptyTrace))"
    and "length (mutatingCalls (fst (rollbackStack options env))) \<le> i"
proof -
  let ?dn = "stackName (stack options)"
  let ?skip = "case orphanLogicalIds options of Some ids \<Rightarrow> ids | None \<Rightarrow> []"
  from rollbackStack_preamble [OF pre] obtain t0 where t0: "mutatingCalls t0 = []"
    and rs: "rollbackStack options env = rollbackLoop options ?dn (iteration env) 0 10 ?skip t0"
    by blast
  from earlier have e': "\<forall>j<i. \<forall>skip. continues (snd (rollbackIteration options ?dn
                                              (iteration env (0 + j)) skip))"
    by simp
  from obs have o': "lookup (iteration env (0 + i)) = Inr cfs"
      "replacePlaceholders (iteration env (0 + i))
         (nullish (roleArn options) (cloudFormationExecutionRoleArn (stack options))) = Inr arn"
    by simp_all
  have L: "rollbackLoop options ?dn (iteration env) 0 10 ?skip t0
         = (appendTrace (fst (rollbackLoop options ?dn (iteration env) 0 i ?skip t0))
              (fst (rollbackIteration options ?dn (iteration env (0 + i)) [])),
            Inr (NotInRollbackableState (stackId cfs)))"
    using loop_reaches_not_rollbackable [OF e' o' obs(3) i] .
  then have L': "rollbackStack options env
         = (appendTrace (fst (rollbackLoop options ?dn (iteration env) 0 i ?skip t0))
              (fst (rollbackIteration options ?dn (iteration env i) [])),
            Inr (NotInRollbackableState (stackId cfs)))"
    using rs by simp
  show "snd (rollbackStack options env) = Inr (NotInRollbackableState (stackId cfs))"
    using L' by simp
  show "\<exists>t0. mutatingCalls t0 = []
           \<and> fst (rollbackStack options env)
               = appendTrace (fst (rollbackLoop options ?dn (iteration env) 0 i ?skip t0))
                   (fst (rollbackIteration options ?dn (iteration env i) []))"
    using L' t0 by auto
  have r: "mutatingCalls (fst (rollbackIteration options ?dn (iteration env i) [])) = []"
    using obs by (rule not_rollbackable_round(2))
  have f: "mutatingCalls (fst (rollbackLoop options ?dn (iteration env) 0 i ?skip t0))
             = mutatingCalls (fst (rollbackLoop options ?dn (iteration env) 0 i ?skip emptyTrace))"
    using loop_from_trace [of options ?dn "iteration env" 0 i ?skip t0] t0
    by (simp add: mutatingCalls_append)
  show m: "mutatingCalls (fst (rollbackStack options env))
           = mutatingCalls (fst (rollbackLoop options ?dn (iteration env) 0 i ?skip emptyTrace))"
    using L' r f by (simp add: mutatingCalls_append)
  have "length (mutatingCalls (fst (rollbackLoop options ?dn (iteration env) 0 i ?skip emptyTrace)))
          \<le> length (mutatingCalls emptyTrace) + i"
    by (rule loop_mut)
  with m show "length (mutatingCalls (fst (rollbackStack options env))) \<le> i"
    by (simp add: mutatingCalls_empty)
qed

text \<open>
  C3 (as amended). A round of the loop that observes a stack whose rollback choice is
  \<open>NONE\<close> or \<open>ROLLBACK_FAILED\<close> returns \<open>notInRollbackableState\<close> at once and issues
  no state-changing call. When it is the first lookup of the invocation that observes
  such a stack (the validation and the access to the environment having passed), the
  invocation returns \<open>notInRollbackableState\<close> and has issued no state-changing call at
  all. When it is a later round \<open>i\<close> that observes it, every earlier round having asked
  for another one, the invocation returns \<open>notInRollbackableState\<close> all the same; its
  trace is that of the rounds before \<open>i\<close> followed by the observing round and nothing
  else, so its state-changing calls are exactly those of the rounds before \<open>i\<close>, at
  most \<open>i\<close> of them, and none is issued in or after the observing round.
\<close>

theorem not_rollbackable_returns_without_mutating:
  "(lookup e = Inr cfs
      \<and> replacePlaceholders e (nullish (roleArn options) (cloudFormationExecutionRoleArn (stack options)))
          = Inr arn
      \<and> (rollbackChoice (stackStatus cfs) = NONE \<or> rollbackChoice (stackStatus cfs) = ROLLBACK_FAILED)
    \<longrightarrow> snd (rollbackIteration options dn e skip) = Return (NotInRollbackableState (stackId cfs))
        \<and> mutatingCalls (fst (rollbackIteration options dn e skip)) = [])
   \<and> (lookup (iteration env 0) = Inr cfs0
      \<and> replacePlaceholders (iteration env 0)
           (nullish (roleArn options) (cloudFormationExecutionRoleArn (stack options))) = Inr arn0
      \<and> (rollbackChoice (stackStatus cfs0) = NONE \<or> rollbackChoice (stackStatus cfs0) = ROLLBACK_FAILED)
      \<and> \<not> (truthy_bool (orphanFailedResources options) \<and> orphanLogicalIds options \<notin> {None, Some []})
      \<and> accessStackForMutableStackOperations env = None
      \<and> validateVersion env = None
    \<longrightarrow> snd (rollbackStack options env) = Inr (NotInRollbackableState (stackId cfs0))
        \<and> mutatingCalls (fst (rollbackStack options env)) = [])
   \<and> (i < 10
      \<and> (\<forall>j<i. \<forall>skip. continues (snd (rollbackIteration options (stackName (stack options))
                                          (iteration env j) skip)))
      \<and> lookup (iteration env i) = Inr cfsi
      \<and> replacePlaceholders (iteration env i)
           (nullish (roleArn options) (cloudFormationExecutionRoleArn (stack options))) = Inr arni
      \<and> (rollbackChoice (stackStatus cfsi) = NONE \<or> rollbackChoice (stackStatus cfsi) = ROLLBACK_FAILED)
      \<and> \<not> (truthy_bool (orphanFailedResources options) \<and> orphanLogicalIds options \<notin> {None, Some []})
      \<and> accessStackForMutableStackOperations env = None
      \<and> validateVersion env = None
    \<longrightarrow> snd (rollbackStack options env) = Inr (NotInRollbackableState (stackId cfsi))
        \<and> (\<exists>t0. mutatingCalls t0 = []
              \<and> fst (rollbackStack options env)
                  = appendTrace
                      (fst (rollbackLoop options (stackName (stack options)) (iteration env) 0 i
                              (case orphanLogicalIds options of Some ids \<Rightarrow> ids | None \<Rightarrow> []) t0))
                      (fst (rollbackIteration options (stackName (stack options)) (iteration env i) [])))
        \<and> mutatingCalls (fst (rollbackIteration options (stackName (stack options)) (iteration env i) []))
            = []
        \<and> mutatingCalls (fst (rollbackStack options env))
            = mutatingCalls (fst (rollbackLoop options (stackName (stack options)) (iteration env) 0 i
                                    (case orphanLogicalIds options of Some ids \<Rightarrow> ids | None \<Rightarrow> [])
                                    emptyTrace))
        \<and> length (mutatingCalls (fst (rollbackStack options env))) \<le> i)"
proof (intro conjI impI)
  assume "lookup e = Inr cfs
      \<and> replacePlaceholders e (nullish (roleArn options) (cloudFormationExecutionRoleArn (stack options)))
          = Inr arn
      \<and> (rollbackChoice (stackStatus cfs) = NONE \<or> rollbackChoice (stackStatus cfs) = ROLLBACK_FAILED)"
  then show "snd (rollbackIteration options dn e skip) = Return (NotInRollbackableState (stackId cfs))"
    and "mutatingCalls (fst (rollbackIteration options dn e skip)) = []"
    using not_rollbackable_round [of e cfs options arn dn skip] by blast+
next
  assume a: "lookup (iteration env 0) = Inr cfs0
      \<and> replacePlaceholders (iteration env 0)
           (nullish (roleArn options) (cloudFormationExecutionRoleArn (stack options))) = Inr arn0
      \<and> (rollbackChoice (stackStatus cfs0) = NONE \<or> rollbackChoice (stackStatus cfs0) = ROLLBACK_FAILED)
      \<and> \<not> (truthy_bool (orphanFailedResources options) \<and> orphanLogicalIds options \<notin> {None, Some []})
      \<and> accessStackForMutableStackOperations env = None
      \<and> validateVersion env = None"
  then show "snd (rollbackStack options env) = Inr (NotInRollbackableState (stackId cfs0))"
    and "mutatingCalls (fst (rollbackStack options env)) = []"
    using not_rollbackable_first_round [of env cfs0 options arn0] by blast+
next
  assume a: "i < 10
      \<and> (\<forall>j<i. \<forall>skip. continues (snd (rollbackIteration options (stackName (stack options))
                                          (iteration env j) skip)))
      \<and> lookup (iteration env i) = Inr cfsi
      \<and> replacePlaceholders (iteration env i)
           (nullish (roleArn options) (cloudFormationExecutionRoleArn (stack options))) = Inr arni
      \<and> (rollbackChoice (stackStatus cfsi) = NONE \<or> rollbackChoice (stackStatus cfsi) = ROLLBACK_FAILED)
      \<and> \<not> (truthy_bool (orphanFailedResources options) \<and> orphanLogicalIds options \<notin> {None, Some []})
      \<and> accessStackForMutableStackOperations env = None
      \<and> validateVersion env = None"
  then have pre: "\<not> (truthy_bool (orphanFailedResources options) \<and> orphanLogicalIds options \<notin> {None, Some []})"
      "accessStackForMutableStackOperations env = None" "validateVersion env = None"
    and i: "i < 10"
    and earlier: "\<forall>j<i. \<forall>skip. continues (snd (rollbackIteration options (stackName (stack options))
                                              (iteration env j) skip))"
    and obs: "lookup (iteration env i) = Inr cfsi"
      "replacePlaceholders (iteration env i)
         (nullish (roleArn options) (cloudFormationExecutionRoleArn (stack options))) = Inr arni"
      "rollbackChoice (stackStatus cfsi) = NONE \<or> rollbackChoice (stackStatus cfsi) = ROLLBACK_FAILED"
    by blast+
  show "snd (rollbackStack options env) = Inr (NotInRollbackableState (stackId cfsi))"
    using pre i earlier obs by (rule not_rollbackable_any_round(1))
  show "\<exists>t0. mutatingCalls t0 = []
              \<and> fst (rollbackStack options env)
                  = appendTrace
                      (fst (rollbackLoop options (stackName (stack options)) (iteration env) 0 i
                              (case orphanLogicalIds options of Some ids \<Rightarrow> ids | None \<Rightarrow> []) t0))
                      (fst (rollbackIteration options (stackName (stack options)) (iteration env i) []))"
    using pre i earlier obs by (rule not_rollbackable_any_round(2))
  show "mutatingCalls (fst (rollbackIteration options (stackName (stack options)) (iteration env i) []))
            = []"
    using obs by (rule not_rollbackable_round(2))
  show "mutatingCalls (fst (rollbackStack options env))
            = mutatingCalls (fst (rollbackLoop options (stackName (stack options)) (iteration env) 0 i
                                    (case orphanLogicalIds options of Some ids \<Rightarrow> ids | None \<Rightarrow> [])
                                    emptyTrace))"
    using pre i earlier obs by (rule not_rollbackable_any_round(3))
  show "length (mutatingCalls (fst (rollbackStack options env))) \<le> i"
    using pre i earlier obs by (rule not_rollbackable_any_round(4))
qed


text \<open>
  A stack that needs no rollback at the first lookup; and, with automatic orphaning, a
  stack that stays in \<open>UPDATE_ROLLBACK_FAILED\<close> for three rounds and is found settled in
  the fourth.
\<close>

theorem not_rollbackable_returns_without_mutating_witness:
  "snd (rollbackIteration (rollbackOptions None None) ''MyStack'' settledIteration [])
     = Return (NotInRollbackableState ''arn:stack/MyStack'')
   \<and> mutatingCalls (fst (rollbackIteration (rollbackOptions None None) ''MyStack'' settledIteration [])) = []
   \<and> snd (rollbackStack (rollbackOptions None None) (rollbackWorld (\<lambda>i. settledIteration)))
     = Inr (NotInRollbackableState ''arn:stack/MyStack'')
   \<and> mutatingCalls (fst (rollbackStack (rollbackOptions None None)
                             (rollbackWorld (\<lambda>i. settledIteration)))) = []
   \<and> snd (rollbackStack (rollbackOptions (Some True) None)
            (rollbackWorld (\<lambda>i. if i < 3 then stuckIteration else settledIteration)))
     = Inr (NotInRollbackableState ''arn:stack/MyStack'')
   \<and> length (mutatingCalls (fst (rollbackStack (rollbackOptions (Some True) None)
            (rollbackWorld (\<lambda>i. if i < 3 then stuckIteration else settledIteration))))) \<le> 3"
proof -
  have first: "snd (rollbackIteration (rollbackOptions None None) ''MyStack'' settledIteration [])
     = Return (NotInRollbackableState ''arn:stack/MyStack'')
   \<and> mutatingCalls (fst (rollbackIteration (rollbackOptions None None) ''MyStack'' settledIteration [])) = []
   \<and> snd (rollbackStack (rollbackOptions None None) (rollbackWorld (\<lambda>i. settledIteration)))
     = Inr (NotInRollbackableState ''arn:stack/MyStack'')
   \<and> mutatingCalls (fst (rollbackStack (rollbackOptions None None)
                             (rollbackWorld (\<lambda>i. settledIteration)))) = []"
    using not_rollbackable_returns_without_mutating
      [of settledIteration "observed ''UPDATE_COMPLETE'' NONE False" "rollbackOptions None None"
          "Some ''arn:exec''" "''MyStack''" "[]" "rollbackWorld (\<lambda>i. settledIteration)"
          "observed ''UPDATE_COMPLETE'' NONE False" "Some ''arn:exec''"]
    by (simp add: rollbackWorld_def settledIteration_def quietIteration_def observed_def
          rollbackOptions_def exampleStack_def)
  let ?o = "rollbackOptions (Some True) None"
  let ?w = "rollbackWorld (\<lambda>i. if i < 3 then stuckIteration else settledIteration)"
  have n: "stackName (stack ?o) = ''MyStack''"
    by (simp add: rollbackOptions_def exampleStack_def)
  have c: "\<forall>j<3. \<forall>skip. continues (snd (rollbackIteration ?o (stackName (stack ?o))
                                             (iteration ?w j) skip))"
    by (simp add: n stuck_continues rollbackWorld_def)
  have h: "(3::nat) < 10
      \<and> lookup (iteration ?w 3) = Inr (observed ''UPDATE_COMPLETE'' NONE False)
      \<and> replacePlaceholders (iteration ?w 3)
           (nullish (roleArn ?o) (cloudFormationExecutionRoleArn (stack ?o))) = Inr (Some ''arn:exec'')
      \<and> (rollbackChoice (stackStatus (observed ''UPDATE_COMPLETE'' NONE False)) = NONE
          \<or> rollbackChoice (stackStatus (observed ''UPDATE_COMPLETE'' NONE False)) = ROLLBACK_FAILED)
      \<and> \<not> (truthy_bool (orphanFailedResources ?o) \<and> orphanLogicalIds ?o \<notin> {None, Some []})
      \<and> accessStackForMutableStackOperations ?w = None
      \<and> validateVersion ?w = None"
    by (simp add: rollbackWorld_def settledIteration_def quietIteration_def observed_def
          rollbackOptions_def exampleStack_def)
  have s: "stackId (observed ''UPDATE_COMPLETE'' NONE False) = ''arn:stack/MyStack''"
    by (simp add: observed_def)
  from not_rollbackable_returns_without_mutating
         [of _ _ ?o _ _ _ ?w _ _ 3 "observed ''UPDATE_COMPLETE'' NONE False" "Some ''arn:exec''"]
       c h
  have later: "snd (rollbackStack ?o ?w)
                 = Inr (NotInRollbackableState (stackId (observed ''UPDATE_COMPLETE'' NONE False)))
               \<and> length (mutatingCalls (fst (rollbackStack ?o ?w))) \<le> 3"
    by blast
  from first later s show ?thesis by simp
qed

text \<open>
  C3 as stated fails when the observation is made in a later round: with automatic
  orphaning, a first round that continues the rollback without success and a second
  round that finds the stack settled end in \<open>notInRollbackableState\<close>, after the
  \<open>continueUpdateRollback\<close> call of the first round.
\<close>

theorem not_rollbackable_after_mutating_call:
  "snd (rollbackStack (rollbackOptions (Some True) None)
          (rollbackWorld (\<lambda>i. if i = 0 then stuckIteration else settledIteration)))
     = Inr (NotInRollbackableState ''arn:stack/MyStack'')
   \<and> mutatingCalls (fst (rollbackStack (rollbackOptions (Some True) None)
          (rollbackWorld (\<lambda>i. if i = 0 then stuckIteration else settledIteration))))
     = [ContinueUpdateRollbackCall \<lparr>cuStackName = ''MyStack'', cuClientRequestToken = ''token'',
          cuRoleARN = Some ''arn:exec'', cuResourcesToSkip = []\<rparr>]"
  by (simp add: rollbackStack_def rollbackOptions_def rollbackWorld_def stuckIteration_def
        settledIteration_def quietIteration_def observed_def exampleStack_def
        validateBootstrapStackVersion_def rollbackIteration_def monitorAndStabilize_def
        failedResources_def mutatingCalls_def call_def say_def emptyTrace_def appendTrace_def
        Let_def numeral_eq_Suc)

text \<open>
  C4 (as amended). For every \<open>rollbackStack\<close> invocation, the automatic-orphaning flag
  together with a non-empty list of orphan logical ids is the validation error
  \<open>Cannot combine --force with --orphan\<close>, raised before any call to a collaborator,
  state-changing or not.
\<close>

theorem force_with_orphan_is_rejected_first:
  assumes "truthy_bool (orphanFailedResources options)"
    and "orphanLogicalIds options = Some ids"
    and "ids \<noteq> []"
  shows "rollbackStack options env = (emptyTrace, Inl CannotCombineForceWithOrphan)
         \<and> calls emptyTrace = []
         \<and> message CannotCombineForceWithOrphan = ''Cannot combine --force with --orphan''"
  using assms by (simp add: rollbackStack_def emptyTrace_def)

theorem force_with_orphan_is_rejected_first_witness:
  "rollbackStack (rollbackOptions (Some True) (Some [''Bucket'']))
     (rollbackWorld (\<lambda>i. stuckIteration))
   = (\<lparr>calls = [], io = []\<rparr>, Inl CannotCombineForceWithOrphan)"
  using force_with_orphan_is_rejected_first
    [of "rollbackOptions (Some True) (Some [''Bucket''])" "[''Bucket'']" "rollbackWorld (\<lambda>i. stuckIteration)"]
  by (simp add: rollbackOptions_def emptyTrace_def)

text \<open>
  C4 as stated fails for a list that is supplied but empty: the flag with the empty list
  passes the validation and the rollback is continued.
\<close>

theorem force_with_empty_orphan_list_proceeds:
  "snd (rollbackStack (rollbackOptions (Some True) (Some []))
          (rollbackWorld (\<lambda>i. recoveringIteration)))
     = Inr (Success ''arn:stack/MyStack'')
   \<and> mutatingCalls (fst (rollbackStack (rollbackOptions (Some True) (Some []))
          (rollbackWorld (\<lambda>i. recoveringIteration))))
     = [ContinueUpdateRollbackCall \<lparr>cuStackName = ''MyStack'', cuClientRequestToken = ''token'',
          cuRoleARN = Some ''arn:exec'', cuResourcesToSkip = []\<rparr>]"
  by (simp add: rollbackStack_def rollbackOptions_def rollbackWorld_def recoveringIteration_def
        quietIteration_def observed_def exampleStack_def
        validateBootstrapStackVersion_def rollbackIteration_def monitorAndStabilize_def
        failedResources_def mutatingCalls_def call_def say_def emptyTrace_def appendTrace_def
        Let_def numeral_eq_Suc)

section \<open>Properties of the publisher cache\<close>

lemma cacheInvariant_new: "cacheInvariant newDeployments"
  by (simp add: cacheInvariant_def newDeployments_def)

lemma cachedPublisher_step:
  assumes "cacheInvariant d" and "cachedPublisher bold m env name d = (p, d')"
  shows "cacheInvariant d'" and "cacheGrows d d'"
    and "publisherCache d' (manifestAddress m) = Some p"
proof -
  show "cacheInvariant d'"
  proof (cases "publisherCache d (manifestAddress m)")
    case None
    with assms(2) have d': "publisherCache d' = (publisherCache d)(manifestAddress m \<mapsto> length (publishers d))"
       "length (publishers d') = Suc (length (publishers d))"
      by (auto simp: cachedPublisher_def Let_def)
    from assms(1) have lt: "\<And>a q. publisherCache d a = Some q \<Longrightarrow> q < length (publishers d)"
      and inj: "\<And>a b q. publisherCache d a = Some q \<Longrightarrow> publisherCache d b = Some q \<Longrightarrow> a = b"
      by (auto simp: cacheInvariant_def)
    show ?thesis
      unfolding cacheInvariant_def d'
      using lt inj by (auto simp: less_Suc_eq split: if_splits dest: lt)
  next
    case (Some q)
    with assms show ?thesis by (simp add: cachedPublisher_def)
  qed
  show "cacheGrows d d'"
    using assms(2) by (auto simp: cachedPublisher_def cacheGrows_def Let_def split: option.splits)
  show "publisherCache d' (manifestAddress m) = Some p"
    using assms(2) by (auto simp: cachedPublisher_def Let_def split: option.splits)
qed

lemma cacheInvariant_cong:
  "publisherCache d' = publisherCache d \<Longrightarrow> publishers d' = publishers d
   \<Longrightarrow> cacheInvariant d' = cacheInvariant d"
  by (simp add: cacheInvariant_def)

lemma cacheGrows_refl: "cacheGrows d d"
  by (simp add: cacheGrows_def)

lemma cacheGrows_trans: "cacheGrows d d' \<Longrightarrow> cacheGrows d' d'' \<Longrightarrow> cacheGrows d d''"
  by (simp add: cacheGrows_def)

lemma cacheGrows_cong: "publisherCache d'' = publisherCache d' \<Longrightarrow> cacheGrows d d' \<Longrightarrow> cacheGrows d d''"
  by (simp add: cacheGrows_def)

lemma buildSingleAsset_cases:
  "(obtained (fst (buildSingleAsset bold name v m sn e d)) = None
      \<and> snd (buildSingleAsset bold name v m sn e d) = d)
   \<or> (\<exists>env. obtained (fst (buildSingleAsset bold name v m sn e d))
                 = Some (fst (cachedPublisher bold m env sn d))
             \<and> snd (buildSingleAsset bold name v m sn e d) = snd (cachedPublisher bold m env sn d))"
  by (auto simp: buildSingleAsset_def case_prod_beta split: option.splits sum.splits)

lemma isSingleAssetPublished_cases:
  "(obtained (fst (isSingleAssetPublished bold m sn e d)) = None
      \<and> snd (isSingleAssetPublished bold m sn e d) = d)
   \<or> (\<exists>env. obtained (fst (isSingleAssetPublished bold m sn e d))
                 = Some (fst (cachedPublisher bold m env sn d))
             \<and> snd (isSingleAssetPublished bold m sn e d) = snd (cachedPublisher bold m env sn d))"
  by (auto simp: isSingleAssetPublished_def case_prod_beta split: option.splits sum.splits)

lemma allowCross_cache:
  "publisherCache (snd (allowCrossAccountAssetPublishingForEnv e d)) = publisherCache d
   \<and> publishers (snd (allowCrossAccountAssetPublishingForEnv e d)) = publishers d"
  by (simp add: allowCrossAccountAssetPublishingForEnv_def split: option.splits sum.splits)

lemma publishSingleAsset_cases:
  "(obtained (fst (publishSingleAsset bold m sn e d)) = None
      \<and> snd (publishSingleAsset bold m sn e d) = d)
   \<or> (\<exists>env. obtained (fst (publishSingleAsset bold m sn e d))
                 = Some (fst (cachedPublisher bold m env sn d))
             \<and> snd (publishSingleAsset bold m sn e d)
                 = snd (allowCrossAccountAssetPublishingForEnv e (snd (cachedPublisher bold m env sn d))))"
  by (auto simp: publishSingleAsset_def case_prod_beta split: option.splits sum.splits)

lemma stepOk_same: "cacheInvariant d \<Longrightarrow> obtained out = None \<Longrightarrow> stepOk d m (out, d)"
  by (simp add: stepOk_def cacheGrows_refl)

lemma stepOk_cached:
  assumes "cacheInvariant d"
    and "obtained out = Some (fst (cachedPublisher bold m env sn d))"
    and "publisherCache d' = publisherCache (snd (cachedPublisher bold m env sn d))"
    and "publishers d' = publishers (snd (cachedPublisher bold m env sn d))"
  shows "stepOk d m (out, d')"
proof -
  obtain p d1 where c: "cachedPublisher bold m env sn d = (p, d1)"
    by (cases "cachedPublisher bold m env sn d")
  from cachedPublisher_step [OF assms(1) c]
  have "cacheInvariant d1" "cacheGrows d d1" "publisherCache d1 (manifestAddress m) = Some p" .
  with assms(2-4) c show ?thesis
    by (simp add: stepOk_def cacheInvariant_def cacheGrows_def)
qed

lemma buildSingleAsset_step:
  assumes "cacheInvariant d"
  shows "stepOk d m (buildSingleAsset bold name v m sn e d)"
  using buildSingleAsset_cases [of bold name v m sn e d]
        stepOk_same [OF assms, of "fst (buildSingleAsset bold name v m sn e d)" m]
        stepOk_cached [OF assms, of "fst (buildSingleAsset bold name v m sn e d)" bold m _ sn
                         "snd (buildSingleAsset bold name v m sn e d)"]
  by (metis prod.collapse)

lemma isSingleAssetPublished_step:
  assumes "cacheInvariant d"
  shows "stepOk d m (isSingleAssetPublished bold m sn e d)"
  using isSingleAssetPublished_cases [of bold m sn e d]
        stepOk_same [OF assms, of "fst (isSingleAssetPublished bold m sn e d)" m]
        stepOk_cached [OF assms, of "fst (isSingleAssetPublished bold m sn e d)" bold m _ sn
                         "snd (isSingleAssetPublished bold m sn e d)"]
  by (metis prod.collapse)

lemma publishSingleAsset_step:
  assumes "cacheInvariant d"
  shows "stepOk d m (publishSingleAsset bold m sn e d)"
  using publishSingleAsset_cases [of bold m sn e d]
        stepOk_same [OF assms, of "fst (publishSingleAsset bold m sn e d)" m]
        stepOk_cached [OF assms, of "fst (publishSingleAsset bold m sn e d)" bold m _ sn
                         "snd (publishSingleAsset bold m sn e d)"]
        allowCross_cache
  by (metis prod.collapse)

lemma runAssetCall_step:
  assumes "cacheInvariant d" and "runAssetCall bold name c d = (out, d')"
  shows "cacheInvariant d' \<and> cacheGrows d d'
         \<and> (\<forall>p. obtained out = Some p
               \<longrightarrow> publisherCache d' (manifestAddress (assetManifest c)) = Some p)"
proof -
  have "stepOk d (assetManifest c) (runAssetCall bold name c d)"
    using assms(1) buildSingleAsset_step publishSingleAsset_step isSingleAssetPublished_step
    by (cases "operation c") (simp_all add: runAssetCall_def)
  with assms(2) show ?thesis by (simp add: stepOk_def)
qed

lemma runAssetCalls_steps:
  assumes "cacheInvariant d" and "runAssetCalls bold name cs d = (outs, d')"
  shows "cacheInvariant d' \<and> cacheGrows d d' \<and> length outs = length cs
         \<and> (\<forall>i<length cs. \<forall>p. obtained (outs ! i) = Some p
               \<longrightarrow> publisherCache d' (manifestAddress (assetManifest (cs ! i))) = Some p)"
  using assms
proof (induction cs arbitrary: d outs d')
  case Nil
  then show ?case by (simp add: cacheGrows_refl)
next
  case (Cons c cs)
  obtain out d1 where o: "runAssetCall bold name c d = (out, d1)"
    by (cases "runAssetCall bold name c d")
  obtain outs1 d2 where r: "runAssetCalls bold name cs d1 = (outs1, d2)"
    by (cases "runAssetCalls bold name cs d1")
  from Cons.prems(2) o r have eq: "outs = out # outs1" "d' = d2" by simp_all
  from Cons.prems(1) o have s1: "cacheInvariant d1" "cacheGrows d d1"
    "\<And>p. obtained out = Some p \<Longrightarrow> publisherCache d1 (manifestAddress (assetManifest c)) = Some p"
    using runAssetCall_step [of d bold name c out d1] by simp_all
  from Cons.IH [OF s1(1) r] have s2: "cacheInvariant d2" "cacheGrows d1 d2" "length outs1 = length cs"
    "\<And>i p. i < length cs \<Longrightarrow> obtained (outs1 ! i) = Some p
       \<Longrightarrow> publisherCache d2 (manifestAddress (assetManifest (cs ! i))) = Some p"
    by simp_all
  have "publisherCache d' (manifestAddress (assetManifest ((c # cs) ! i))) = Some p"
    if "i < length (c # cs)" "obtained (outs ! i) = Some p" for i p
  proof (cases i)
    case 0
    with that eq have "obtained out = Some p" by simp
    then have "publisherCache d1 (manifestAddress (assetManifest c)) = Some p" by (rule s1(3))
    with s2(2) have "publisherCache d2 (manifestAddress (assetManifest c)) = Some p"
      by (simp add: cacheGrows_def)
    with 0 eq show ?thesis by simp
  next
    case (Suc k)
    with that eq have "k < length cs" "obtained (outs1 ! k) = Some p" by simp_all
    then have "publisherCache d2 (manifestAddress (assetManifest (cs ! k))) = Some p" by (rule s2(4))
    with Suc eq show ?thesis by simp
  qed
  with s1 s2 eq show ?case
    using cacheGrows_trans [of d d1 d2] by simp
qed

text \<open>
  C7. For every sequence of build, publish and existence-check calls on one
  \<open>Deployments\<close> instance, two calls that obtain a publisher obtain the identical one
  exactly when they reference the same manifest object (the same address, whatever the
  contents), and the publisher a call obtained is still the cache's entry for its
  manifest at the end of the sequence, however many calls follow.
\<close>

theorem publisher_cache_by_identity:
  "(\<forall>i<length cs. \<forall>j<length cs. \<forall>p q.
       obtained (fst (runAssetCalls bold name cs newDeployments) ! i) = Some p
       \<and> obtained (fst (runAssetCalls bold name cs newDeployments) ! j) = Some q
       \<longrightarrow> (p = q \<longleftrightarrow> manifestAddress (assetManifest (cs ! i))
                         = manifestAddress (assetManifest (cs ! j))))
   \<and> (\<forall>i<length cs. \<forall>p.
       obtained (fst (runAssetCalls bold name cs newDeployments) ! i) = Some p
       \<longrightarrow> publisherCache (snd (runAssetCalls bold name cs newDeployments))
             (manifestAddress (assetManifest (cs ! i))) = Some p)"
proof -
  obtain outs d' where r: "runAssetCalls bold name cs newDeployments = (outs, d')"
    by (cases "runAssetCalls bold name cs newDeployments")
  from runAssetCalls_steps [OF cacheInvariant_new r]
  have inv: "cacheInvariant d'"
    and kept: "\<And>i p. i < length cs \<Longrightarrow> obtained (outs ! i) = Some p
                 \<Longrightarrow> publisherCache d' (manifestAddress (assetManifest (cs ! i))) = Some p"
    by simp_all
  from inv have inj: "\<And>a b p. publisherCache d' a = Some p \<Longrightarrow> publisherCache d' b = Some p \<Longrightarrow> a = b"
    by (auto simp: cacheInvariant_def)
  have same: "p = q \<longleftrightarrow> manifestAddress (assetManifest (cs ! i)) = manifestAddress (assetManifest (cs ! j))"
    if "i < length cs" "j < length cs" "obtained (outs ! i) = Some p" "obtained (outs ! j) = Some q"
    for i j p q
  proof
    assume "p = q"
    with kept [OF that(1,3)] kept [OF that(2,4)] show
      "manifestAddress (assetManifest (cs ! i)) = manifestAddress (assetManifest (cs ! j))"
      using inj by blast
  next
    assume "manifestAddress (assetManifest (cs ! i)) = manifestAddress (assetManifest (cs ! j))"
    with kept [OF that(1,3)] kept [OF that(2,4)] show "p = q" by simp
  qed
  have A: "\<forall>i<length cs. \<forall>j<length cs. \<forall>p q.
       obtained (outs ! i) = Some p \<and> obtained (outs ! j) = Some q
       \<longrightarrow> (p = q \<longleftrightarrow> manifestAddress (assetManifest (cs ! i))
                         = manifestAddress (assetManifest (cs ! j)))"
    using same by blast
  have B: "\<forall>i<length cs. \<forall>p. obtained (outs ! i) = Some p
       \<longrightarrow> publisherCache d' (manifestAddress (assetManifest (cs ! i))) = Some p"
    using kept by blast
  show ?thesis
    unfolding r fst_conv snd_conv using A B by (rule conjI)
qed

text \<open>
  A build and a publish on one manifest object, then an existence check on another
  object with the same contents: the first two share publisher 0, the third gets
  publisher 1.
\<close>

lemma first_call_allocates:
  "runAssetCall (\<lambda>s. s) ''MyStack'' (quietAssetCall (BuildSingleAsset True) (manifestAt 10)) newDeployments
   = (\<lparr>obtained = Some 0, result = Inr None\<rparr>,
      \<lparr>publisherCache = [10 \<mapsto> 0],
       publishers = [\<lparr>publishedManifest = manifestAt 10,
                      publishingEnvironment = ''aws://123456789012/us-east-1'',
                      progressPrefix = ''MyStack: ''\<rparr>],
       allowCrossAccountAssetPublishing = None\<rparr>)"
  by (simp add: runAssetCall_def quietAssetCall_def manifestAt_def buildSingleAsset_def
        cachedPublisher_def newDeployments_def)

lemma second_call_reuses:
  "runAssetCall (\<lambda>s. s) ''MyStack'' (quietAssetCall PublishSingleAsset (manifestAt 10))
      \<lparr>publisherCache = [10 \<mapsto> 0],
       publishers = [\<lparr>publishedManifest = manifestAt 10,
                      publishingEnvironment = ''aws://123456789012/us-east-1'',
                      progressPrefix = ''MyStack: ''\<rparr>],
       allowCrossAccountAssetPublishing = None\<rparr>
   = (\<lparr>obtained = Some 0, result = Inr None\<rparr>,
      \<lparr>publisherCache = [10 \<mapsto> 0],
       publishers = [\<lparr>publishedManifest = manifestAt 10,
                      publishingEnvironment = ''aws://123456789012/us-east-1'',
                      progressPrefix = ''MyStack: ''\<rparr>],
       allowCrossAccountAssetPublishing = Some False\<rparr>)"
  by (simp add: runAssetCall_def quietAssetCall_def manifestAt_def publishSingleAsset_def
        cachedPublisher_def allowCrossAccountAssetPublishingForEnv_def)

lemma third_call_allocates:
  "runAssetCall (\<lambda>s. s) ''MyStack'' (quietAssetCall IsSingleAssetPublished (manifestAt 20))
      \<lparr>publisherCache = [10 \<mapsto> 0],
       publishers = [\<lparr>publishedManifest = manifestAt 10,
                      publishingEnvironment = ''aws://123456789012/us-east-1'',
                      progressPrefix = ''MyStack: ''\<rparr>],
       allowCrossAccountAssetPublishing = Some False\<rparr>
   = (\<lparr>obtained = Some 1, result = Inr (Some True)\<rparr>,
      \<lparr>publisherCache = [10 \<mapsto> 0, 20 \<mapsto> 1],
       publishers = [\<lparr>publishedManifest = manifestAt 10,
                      publishingEnvironment = ''aws://123456789012/us-east-1'',
                      progressPrefix = ''MyStack: ''\<rparr>,
                     \<lparr>publishedManifest = manifestAt 20,
                      publishingEnvironment = ''aws://123456789012/us-east-1'',
                      progressPrefix = ''MyStack: ''\<rparr>],
       allowCrossAccountAssetPublishing = Some False\<rparr>)"
  by (simp add: runAssetCall_def quietAssetCall_def manifestAt_def isSingleAssetPublished_def
        cachedPublisher_def)

lemma three_calls:
  "map obtained (fst (runAssetCalls (\<lambda>s. s) ''MyStack''
      [quietAssetCall (BuildSingleAsset True) (manifestAt 10),
       quietAssetCall PublishSingleAsset (manifestAt 10),
       quietAssetCall IsSingleAssetPublished (manifestAt 20)] newDeployments))
   = [Some 0, Some 0, Some 1]"
  by (simp add: first_call_allocates second_call_reuses third_call_allocates)

theorem publisher_cache_by_identity_witness:
  "map obtained (fst (runAssetCalls (\<lambda>s. s) ''MyStack''
      [quietAssetCall (BuildSingleAsset True) (manifestAt 10),
       quietAssetCall PublishSingleAsset (manifestAt 10),
       quietAssetCall IsSingleAssetPublished (manifestAt 20)] newDeployments))
     = [Some 0, Some 0, Some 1]
   \<and> manifestEntries (manifestAt 10) = manifestEntries (manifestAt 20)
   \<and> publisherCache (snd (runAssetCalls (\<lambda>s. s) ''MyStack''
      [quietAssetCall (BuildSingleAsset True) (manifestAt 10),
       quietAssetCall PublishSingleAsset (manifestAt 10),
       quietAssetCall IsSingleAssetPublished (manifestAt 20)] newDeployments)) 10 = Some 0"
proof -
  let ?cs = "[quietAssetCall (BuildSingleAsset True) (manifestAt 10),
       quietAssetCall PublishSingleAsset (manifestAt 10),
       quietAssetCall IsSingleAssetPublished (manifestAt 20)]"
  have o: "map obtained (fst (runAssetCalls (\<lambda>s. s) ''MyStack'' ?cs newDeployments))
             = [Some 0, Some 0, Some 1]"
    by (rule three_calls)
  have o0: "obtained (fst (runAssetCalls (\<lambda>s. s) ''MyStack'' ?cs newDeployments) ! 0) = Some 0"
    by (simp add: first_call_allocates second_call_reuses third_call_allocates)
  have a0: "manifestAddress (assetManifest (?cs ! 0)) = 10"
    by (simp add: quietAssetCall_def manifestAt_def)
  have "publisherCache (snd (runAssetCalls (\<lambda>s. s) ''MyStack'' ?cs newDeployments))
          (manifestAddress (assetManifest (?cs ! 0))) = Some 0"
    using publisher_cache_by_identity [of ?cs "\<lambda>s. s" "''MyStack''", THEN conjunct2, rule_format, of 0 0]
          o0
    by simp
  with a0 o show ?thesis by (simp add: manifestAt_def)
qed

section \<open>Properties of the resource importer\<close>

lemma filter_all: "(\<forall>x\<in>set xs. P x) \<Longrightarrow> filter P xs = xs"
  by (induction xs) auto

lemma filter_none: "(\<forall>x\<in>set xs. P x) \<Longrightarrow> filter (\<lambda>x. \<not> P x) xs = []"
  by (induction xs) auto

lemma filter_some: "(\<exists>x\<in>set xs. \<not> P x) \<Longrightarrow> filter (\<lambda>x. \<not> P x) xs \<noteq> []"
  by (induction xs) auto

text \<open>
  C5. \<open>discoverImportableResources\<close> classifies every resource change between the
  deployed and the desired template but that of \<open>CDKMetadata\<close>: when every change is
  an addition, the result lists all of them as import candidates and
  \<open>hasNonAdditions\<close> is false; when a change is not an addition and
  \<open>allowNonAdditions\<close> is false (or left out), it throws, naming the offending
  resources; when a change is not an addition and \<open>allowNonAdditions\<close> is true, it
  sends one warning naming the offending resources and returns the additions with
  \<open>hasNonAdditions\<close> true.
\<close>

theorem discover_classifies_resource_changes:
  assumes "currentTemplate cached readCurrentTemplate = (Inr current, cached')"
  shows
    "set (resourceChanges (fullDiff current template))
       = {c \<in> set (fullDiff current template). fst c \<noteq> ''CDKMetadata''}
     \<and> ((\<forall>c \<in> set (resourceChanges (fullDiff current template)). isAddition (snd c))
          \<longrightarrow> discoverImportableResources fullDiff template allow cached readCurrentTemplate
              = ([], cached',
                 Inr \<lparr>additions = map (importCandidate template)
                                     (resourceChanges (fullDiff current template)),
                      hasNonAdditions = False\<rparr>))
     \<and> ((\<exists>c \<in> set (resourceChanges (fullDiff current template)). \<not> isAddition (snd c))
          \<and> allow \<noteq> Some True
          \<longrightarrow> discoverImportableResources fullDiff template allow cached readCurrentTemplate
              = ([], cached',
                 Inl (NonAdditionsNotAllowed
                        (map (\<lambda>c. describeResource template (fst c))
                           (filter (\<lambda>c. \<not> isAddition (snd c))
                              (resourceChanges (fullDiff current template)))))))
     \<and> ((\<exists>c \<in> set (resourceChanges (fullDiff current template)). \<not> isAddition (snd c))
          \<and> allow = Some True
          \<longrightarrow> discoverImportableResources fullDiff template allow cached readCurrentTemplate
              = ([(Warn, ''Ignoring updated/deleted resources (--force): ''
                           @ join '', ''
                               (map (\<lambda>c. describeResource template (fst c))
                                  (filter (\<lambda>c. \<not> isAddition (snd c))
                                     (resourceChanges (fullDiff current template)))))],
                 cached',
                 Inr \<lparr>additions = map (importCandidate template)
                                     (filter (\<lambda>c. isAddition (snd c))
                                        (resourceChanges (fullDiff current template))),
                      hasNonAdditions = True\<rparr>))"
proof -
  let ?cs = "resourceChanges (fullDiff current template)"
  have unf: "discoverImportableResources fullDiff template allow cached readCurrentTemplate
      = (if filter (\<lambda>c. \<not> isAddition (snd c)) ?cs \<noteq> [] then
           (if allow = Some True
            then ([(Warn, ''Ignoring updated/deleted resources (--force): ''
                           @ join '', '' (map (\<lambda>c. describeResource template (fst c))
                                            (filter (\<lambda>c. \<not> isAddition (snd c)) ?cs)))],
                  cached',
                  Inr \<lparr>additions = map (importCandidate template) (filter (\<lambda>c. isAddition (snd c)) ?cs),
                       hasNonAdditions = True\<rparr>)
            else ([], cached',
                  Inl (NonAdditionsNotAllowed (map (\<lambda>c. describeResource template (fst c))
                                                 (filter (\<lambda>c. \<not> isAddition (snd c)) ?cs)))))
         else ([], cached',
               Inr \<lparr>additions = map (importCandidate template) (filter (\<lambda>c. isAddition (snd c)) ?cs),
                    hasNonAdditions = False\<rparr>))"
    using assms
    by (cases allow)
       (auto simp: discoverImportableResources_def Let_def case_prod_unfold importCandidate_def
          cong: map_cong)
  have s: "set ?cs = {c \<in> set (fullDiff current template). fst c \<noteq> ''CDKMetadata''}"
    by (auto simp: resourceChanges_def)
  have a: "\<forall>c \<in> set ?cs. isAddition (snd c) \<Longrightarrow>
           filter (\<lambda>c. \<not> isAddition (snd c)) ?cs = [] \<and> filter (\<lambda>c. isAddition (snd c)) ?cs = ?cs"
    using filter_all [of ?cs "\<lambda>c. isAddition (snd c)"] filter_none [of ?cs "\<lambda>c. isAddition (snd c)"]
    by simp
  have b: "\<exists>c \<in> set ?cs. \<not> isAddition (snd c) \<Longrightarrow> filter (\<lambda>c. \<not> isAddition (snd c)) ?cs \<noteq> []"
    using filter_some [of ?cs "\<lambda>c. isAddition (snd c)"] by simp
  show ?thesis
    unfolding unf using s a b by auto
qed

theorem discover_classifies_resource_changes_witness:
  "discoverImportableResources onlyAdditions desiredTemplate None None (Inr ())
     = ([], Some (),
        Inr \<lparr>additions =
               [\<lparr>logicalId = ''Bucket'', resourceDiff = added ''AWS::S3::Bucket'',
                 resourceDefinition = \<lparr>DeletionPolicy = Some ''Retain'',
                    cdkPath = Some ''MyStack/Bucket/Resource'', definition_rest = None\<rparr>\<rparr>,
                \<lparr>logicalId = ''Queue'', resourceDiff = added ''AWS::SQS::Queue'',
                 resourceDefinition = \<lparr>DeletionPolicy = Some ''Delete'',
                    cdkPath = Some ''MyStack/Queue/Resource'', definition_rest = None\<rparr>\<rparr>],
             hasNonAdditions = False\<rparr>)
   \<and> discoverImportableResources withChange desiredTemplate (Some False) None (Inr ())
     = ([], Some (), Inl (NonAdditionsNotAllowed [''MyStack/Queue/Resource'']))
   \<and> discoverImportableResources withChange desiredTemplate (Some True) None (Inr ())
     = ([(Warn, ''Ignoring updated/deleted resources (--force): MyStack/Queue/Resource'')], Some (),
        Inr \<lparr>additions =
               [\<lparr>logicalId = ''Bucket'', resourceDiff = added ''AWS::S3::Bucket'',
                 resourceDefinition = \<lparr>DeletionPolicy = Some ''Retain'',
                    cdkPath = Some ''MyStack/Bucket/Resource'', definition_rest = None\<rparr>\<rparr>],
             hasNonAdditions = True\<rparr>)"
proof -
  have r: "currentTemplate None (Inr ()) = (Inr (), Some ())"
    by (simp add: currentTemplate_def)
  have c1: "resourceChanges (onlyAdditions () desiredTemplate)
              = [(''Bucket'', added ''AWS::S3::Bucket''), (''Queue'', added ''AWS::SQS::Queue'')]"
    by (simp add: resourceChanges_def onlyAdditions_def)
  have c2: "resourceChanges (withChange () desiredTemplate)
              = [(''Bucket'', added ''AWS::S3::Bucket''), (''Queue'', changed ''AWS::SQS::Queue'')]"
    by (simp add: resourceChanges_def withChange_def)
  have e: "importCandidate desiredTemplate (''Bucket'', added ''AWS::S3::Bucket'')
             = \<lparr>logicalId = ''Bucket'', resourceDiff = added ''AWS::S3::Bucket'',
                 resourceDefinition = \<lparr>DeletionPolicy = Some ''Retain'',
                    cdkPath = Some ''MyStack/Bucket/Resource'', definition_rest = None\<rparr>\<rparr>"
          "importCandidate desiredTemplate (''Queue'', added ''AWS::SQS::Queue'')
             = \<lparr>logicalId = ''Queue'', resourceDiff = added ''AWS::SQS::Queue'',
                 resourceDefinition = \<lparr>DeletionPolicy = Some ''Delete'',
                    cdkPath = Some ''MyStack/Queue/Resource'', definition_rest = None\<rparr>\<rparr>"
          "describeResource desiredTemplate ''Queue'' = ''MyStack/Queue/Resource''"
    by (simp_all add: importCandidate_def templateResource_def desiredTemplate_def
          addDefaultDeletionPolicy_def describeResource_def)
  have i: "isAddition (added t)" "\<not> isAddition (changed t)" for t
    by (simp_all add: added_def changed_def)
  from discover_classifies_resource_changes [OF r, of onlyAdditions desiredTemplate None]
  have w1: "discoverImportableResources onlyAdditions desiredTemplate None None (Inr ())
     = ([], Some (),
        Inr \<lparr>additions = map (importCandidate desiredTemplate)
                            (resourceChanges (onlyAdditions () desiredTemplate)),
             hasNonAdditions = False\<rparr>)"
    by (simp add: c1 i)
  from discover_classifies_resource_changes [OF r, of withChange desiredTemplate "Some False"]
  have w2: "discoverImportableResources withChange desiredTemplate (Some False) None (Inr ())
     = ([], Some (), Inl (NonAdditionsNotAllowed [''MyStack/Queue/Resource'']))"
    by (simp add: c2 i e)
  from discover_classifies_resource_changes [OF r, of withChange desiredTemplate "Some True"]
  have w3: "discoverImportableResources withChange desiredTemplate (Some True) None (Inr ())
     = ([(Warn, ''Ignoring updated/deleted resources (--force): MyStack/Queue/Resource'')], Some (),
        Inr \<lparr>additions = [importCandidate desiredTemplate (''Bucket'', added ''AWS::S3::Bucket'')],
             hasNonAdditions = True\<rparr>)"
    by (simp add: c2 i e)
  from w1 w2 w3 show ?thesis by (simp add: c1 e)
qed

section \<open>Properties of the parameter resolution\<close>




lemma parameter_resolution_closed:
  "resolveParameter marker key p previous override =
     (case override of
        Some v \<Rightarrow>
          Inr ([ParameterValue key v],
               if ssmInvalidates marker p then SsmChanges
               else if previous = Some v then NoChanges else Changes)
      | None \<Rightarrow>
          (case previous of
             Some prev \<Rightarrow>
               Inr ([UsePreviousValue key], if ssmInvalidates marker p then SsmChanges else NoChanges)
           | None \<Rightarrow>
               (case Default p of
                  Some d \<Rightarrow> Inr ([], if ssmInvalidates marker p then SsmChanges else Changes)
                | None \<Rightarrow> Inl (MissingParameterValues [key]))))"
  by (cases override; cases previous; cases "Default p")
     (auto simp: resolveParameter_def updateExisting_def newParameterValues_def resolveStep_def
        updatedValue_def hasChanges_def assign_def Object_keys_def)

text \<open>
  The model agrees with the remaining tests of \<open>cloudformation.test.ts\<close>: the empty
  string is a valid update value; an unknown parameter in the overrides is passed on; a
  parameter that reverts to its default is a change against another current value, and
  none against the same.
\<close>

lemma model_agrees_with_the_other_tests:
  "map_sum id apiParameters
     (updateExisting [(''Foo'', \<lparr>Type = ''String'', Default = Some ''Foo'', Description = None\<rparr>)]
        [(''Foo'', Some '''')] [(''Foo'', ''ThisIsOld'')])
     = Inr [ParameterValue ''Foo'' '''']"
  "map_sum id apiParameters
     (updateExisting [(''Foo'', \<lparr>Type = ''String'', Default = Some ''Foo'', Description = None\<rparr>)]
        [(''Bar'', Some ''Bar'')] [])
     = Inr [ParameterValue ''Bar'' ''Bar'']"
  "map_sum id (\<lambda>stackParams. hasChanges ''[cdk:skip]'' stackParams [(''Foo'', ''NonStandard'')])
     (supplyAll [(''Foo'', \<lparr>Type = ''String'', Default = Some ''Foo'', Description = None\<rparr>)] [])
     = Inr Changes"
  "map_sum id (\<lambda>stackParams. hasChanges ''[cdk:skip]'' stackParams [(''Foo'', ''Foo'')])
     (supplyAll [(''Foo'', \<lparr>Type = ''String'', Default = Some ''Foo'', Description = None\<rparr>)] [])
     = Inr NoChanges"
  by (simp_all add: updateExisting_def supplyAll_def newParameterValues_def resolveStep_def
        updatedValue_def hasChanges_def assign_def Object_keys_def ssmInvalidates_def
        isSsmParameter_def)




text \<open>
  C8 (as amended). A parameter sourced from the parameter store (SSM-typed) whose
  description lacks the no-invalidate marker counts as changed (\<open>'ssm'\<close>) whenever it
  resolves at all: when no value is supplied, and when a different or even the same
  value is supplied; and so does every template that holds such a parameter. When the
  parameter carries the marker and has a previous value, it counts as changed exactly
  when a value is supplied that differs from the previous value; when it carries the
  marker and has no previous value, the value that is supplied or defaulted is new and
  counts as changed.
\<close>

theorem ssm_parameter_counts_as_changed:
  "(isSsmParameter p \<and> \<not> hasMarker marker p
      \<and> (override \<noteq> None \<or> previous \<noteq> None \<or> Default p \<noteq> None)
    \<longrightarrow> (\<exists>api. resolveParameter marker key p previous override = Inr (api, SsmChanges)))
   \<and> (list_ex (\<lambda>(_, q). ssmInvalidates marker q) (formalParams pv)
    \<longrightarrow> hasChanges marker pv currentValues = SsmChanges)
   \<and> (isSsmParameter p \<and> hasMarker marker p
    \<longrightarrow> (\<exists>api c. resolveParameter marker key p (Some prev) override = Inr (api, c)
                \<and> (countsAsChanged c \<longleftrightarrow> (\<exists>v. override = Some v \<and> v \<noteq> prev))))
   \<and> (isSsmParameter p \<and> hasMarker marker p
      \<and> (override \<noteq> None \<or> Default p \<noteq> None)
    \<longrightarrow> (\<exists>api. resolveParameter marker key p None override = Inr (api, Changes)))"
proof (intro conjI impI)
  assume "isSsmParameter p \<and> \<not> hasMarker marker p
      \<and> (override \<noteq> None \<or> previous \<noteq> None \<or> Default p \<noteq> None)"
  then show "\<exists>api. resolveParameter marker key p previous override = Inr (api, SsmChanges)"
    by (cases override; cases previous; cases "Default p")
       (simp_all add: parameter_resolution_closed ssmInvalidates_def)
next
  assume "list_ex (\<lambda>(_, q). ssmInvalidates marker q) (formalParams pv)"
  then show "hasChanges marker pv currentValues = SsmChanges"
    by (simp add: hasChanges_def)
next
  assume "isSsmParameter p \<and> hasMarker marker p"
  then show "\<exists>api c. resolveParameter marker key p (Some prev) override = Inr (api, c)
                \<and> (countsAsChanged c \<longleftrightarrow> (\<exists>v. override = Some v \<and> v \<noteq> prev))"
    by (cases override) (auto simp: parameter_resolution_closed ssmInvalidates_def)
next
  assume "isSsmParameter p \<and> hasMarker marker p \<and> (override \<noteq> None \<or> Default p \<noteq> None)"
  then show "\<exists>api. resolveParameter marker key p None override = Inr (api, Changes)"
    by (cases override; cases "Default p")
       (simp_all add: parameter_resolution_closed ssmInvalidates_def)
qed

text \<open>
  The cases of the two tests of the parameter store: without the marker, no value and
  the same value; with the marker, no value and another value.
\<close>

theorem ssm_parameter_counts_as_changed_witness:
  "resolveParameter ''[cdk:skip]'' ''Foo''
      \<lparr>Type = ''AWS::SSM::Parameter::Name'', Default = Some ''/Some/Key'', Description = None\<rparr>
      (Some ''/Some/Key'') None
     = Inr ([UsePreviousValue ''Foo''], SsmChanges)
   \<and> resolveParameter ''[cdk:skip]'' ''Foo''
      \<lparr>Type = ''AWS::SSM::Parameter::Name'', Default = Some ''/Some/Key'', Description = None\<rparr>
      (Some ''/Some/Key'') (Some ''/Some/Key'')
     = Inr ([ParameterValue ''Foo'' ''/Some/Key''], SsmChanges)
   \<and> resolveParameter ''[cdk:skip]'' ''Foo''
      \<lparr>Type = ''AWS::SSM::Parameter::Name'', Default = Some ''/Some/Key'',
       Description = Some ''blabla [cdk:skip]''\<rparr>
      (Some ''/Some/Key'') None
     = Inr ([UsePreviousValue ''Foo''], NoChanges)
   \<and> resolveParameter ''[cdk:skip]'' ''Foo''
      \<lparr>Type = ''AWS::SSM::Parameter::Name'', Default = Some ''/Some/Key'',
       Description = Some ''blabla [cdk:skip]''\<rparr>
      (Some ''/Some/Key'') (Some ''/OTHER/Key'')
     = Inr ([ParameterValue ''Foo'' ''/OTHER/Key''], Changes)"
  using ssm_parameter_counts_as_changed
    [of "\<lparr>Type = ''AWS::SSM::Parameter::Name'', Default = Some ''/Some/Key'', Description = None\<rparr>"
        "''[cdk:skip]''" None "Some ''/Some/Key''" "''Foo''"
        "\<lparr>formalParams = [(''Foo'', \<lparr>Type = ''AWS::SSM::Parameter::Name'',
                                        Default = Some ''/Some/Key'', Description = None\<rparr>)],
          resolvedValues = [(''Foo'', ''/Some/Key'')], apiParameters = [UsePreviousValue ''Foo'']\<rparr>"
        "[(''Foo'', ''/Some/Key'')]" "''/Some/Key''"]
    ssm_parameter_counts_as_changed
    [of "\<lparr>Type = ''AWS::SSM::Parameter::Name'', Default = Some ''/Some/Key'',
          Description = Some ''blabla [cdk:skip]''\<rparr>"
        "''[cdk:skip]''" "Some ''/OTHER/Key''" "Some ''/Some/Key''" "''Foo''"
        "\<lparr>formalParams = [(''Foo'', \<lparr>Type = ''AWS::SSM::Parameter::Name'',
                                        Default = Some ''/Some/Key'', Description = None\<rparr>)],
          resolvedValues = [(''Foo'', ''/Some/Key'')], apiParameters = [UsePreviousValue ''Foo'']\<rparr>"
        "[(''Foo'', ''/Some/Key'')]" "''/Some/Key''"]
  by (simp add: parameter_resolution_closed ssmInvalidates_def isSsmParameter_def hasMarker_def)

text \<open>
  C8 as stated fails for a marked parameter that is deployed for the first time: with a
  default, no previous value and no value supplied it counts as changed, although no
  supplied value differs from a previous one.
\<close>

theorem marked_parameter_without_previous_value:
  "resolveParameter ''[cdk:skip]'' ''Foo''
      \<lparr>Type = ''AWS::SSM::Parameter::Name'', Default = Some ''/Some/Key'',
       Description = Some ''blabla [cdk:skip]''\<rparr>
      None None
     = Inr ([], Changes)
   \<and> countsAsChanged Changes"
  by (simp add: resolveParameter_def updateExisting_def newParameterValues_def resolveStep_def
        updatedValue_def hasChanges_def assign_def Object_keys_def ssmInvalidates_def
        isSsmParameter_def hasMarker_def)

end
